theory Spec2Isabelle
  imports Main
begin

section \<open>The labeller of src/lib/index.js\<close>

text \<open>
  The module exports one function, \<open>GitHubLabeller(labels, options, callback)\<close>, with two
  helpers hung on it, \<open>checkRepo\<close> and \<open>addToRepo\<close>. It talks to the remote service
  through \<open>gh.get\<close> of the gh.js client, joins concurrent tasks with the same-time
  package and reports progress on an event emitter. Neither package is part of the
  sources; both are parameters of the model (record \<open>env\<close> below).

  Strings are byte lists, read as the UTF-8 form of the JavaScript string. The
  characters the code looks for (\<open>#\<close> and \<open>/\<close>) are ASCII, so looking at bytes and
  looking at UTF-16 code units agree on them.
\<close>

subsection \<open>Values\<close>

text \<open>
  A label object as the code reads it: the fields \<open>name\<close>, \<open>label\<close> (the alias) and
  \<open>color\<close>, each of which may be absent (\<open>None\<close> is JavaScript's \<open>undefined\<close>). The
  objects of a repository listing are read through \<open>name\<close> only and share the type.
\<close>

record obj =
  name :: "string option"
  label :: "string option"
  color :: "string option"

text \<open>The options object: \<open>repo\<close>, \<open>source\<close> (optional) and \<open>token\<close>.\<close>

record options =
  repo :: string
  source :: "string option"
  token :: string

text \<open>
  Errors handed to a callback: the two \<open>new Error("Missing ... for label: " + i)\<close> of
  the normalisation loop, and whatever error the client reports.
\<close>

datatype error = MissingName nat | MissingColor nat | Remote string

text \<open>
  The exception the code raises on the strings considered here: reading \<open>charAt\<close> of an
  absent color. (\<open>encodeURIComponent\<close> raises a \<open>URIError\<close> on a lone surrogate; a
  byte list that is the UTF-8 form of a string has none.)
\<close>

datatype exn = TypeError

text \<open>Arguments of callbacks and payloads of events.\<close>

datatype val = Undefined | Null | Error error | Object obj | Array "val list"

text \<open>The second argument of \<open>gh.get\<close>: omitted, \<open>{ all: true }\<close> or \<open>{ data: label }\<close>.\<close>

datatype opts = NoOpts | AllPages | Data obj

record request =
  endpoint :: string
  opts :: opts

text \<open>An emitted \<open>"added"\<close> event: \<open>ev.emit("added", owner, repo, c, err, data)\<close>.\<close>

record event =
  e_owner :: string
  e_repo :: string
  e_label :: obj
  e_err :: val
  e_data :: val

text \<open>
  The environment. \<open>gh.get(endpoint, opts, cb)\<close> calls \<open>cb(err, data)\<close>; the reply is a
  function of the request, so the order in which concurrent requests complete has no
  influence on which requests are made, which events are emitted or what is joined.
  The reply is typed by what the call site does with \<open>data\<close>: a listing yields an array
  of objects (consulted only when \<open>err\<close> is falsy), a write yields \<open>err\<close> (\<open>None\<close> for
  \<open>null\<close>) together with \<open>data\<close>, which is passed on whatever \<open>err\<close> is.
  \<open>join\<close> is the aggregation of same-time: from the argument lists the tasks gave to
  their \<open>done\<close>, in input order, to the argument list of the final callback.
\<close>

record env =
  listing :: "request \<Rightarrow> error + obj list"
  writing :: "request \<Rightarrow> error option \<times> val"
  join :: "val list list \<Rightarrow> val list"

text \<open>
  The program runs in ticks: the call itself, and then one tick for every reply, in which
  the callback of that request runs. A \<open>call\<close> is a request together with the calls
  issued in the tick of its reply. Requests issued in one tick are in flight together:
  none of them has been answered when the last of them is issued.
\<close>

datatype call = Call request "call list"

text \<open>
  What a piece of the program did: the requests it issued, task by task and each
  followed by what its reply set off; the events it emitted, task by task as well; and
  \<open>calls\<close>, the same requests by tick: those issued in the tick in which the piece is
  started, each with what is issued when it is answered. The two lists are listings
  and not orders in time: which of two requests of different tasks is issued first, and
  which of two events is emitted first, depends on the order of the replies, except for
  what \<open>calls\<close> tells.
\<close>

record effects =
  requests :: "request list"
  events :: "event list"
  calls :: "call list"

text \<open>
  Every path of \<open>checkRepo\<close> and \<open>addToRepo\<close> ends in one call of the callback it was
  given; \<open>called\<close> is the argument list of that call.
\<close>

record task = effects +
  called :: "val list"

text \<open>
  A call of \<open>GitHubLabeller\<close> ends in a call of \<open>callback\<close> or in an exception.
  \<open>labels_after\<close> and \<open>options_after\<close> are the array and the object the caller passed,
  as they are when the run is over; \<open>emitter\<close> tells whether the call returned \<open>ev\<close>
  (it does not when the exception leaves the synchronous part of the call).
\<close>

datatype outcome = Called "val list" | Thrown exn

record run = effects +
  outcome :: outcome
  labels_after :: "obj list"
  options_after :: options
  emitter :: bool

subsection \<open>JavaScript primitives\<close>

text \<open>Truthiness of a possibly absent string: absent and empty are falsy.\<close>

fun truthy :: "string option \<Rightarrow> bool" where
  "truthy None = False"
| "truthy (Some s) = (s \<noteq> [])"

text \<open>String concatenation renders \<open>undefined\<close> by its name.\<close>

fun to_str :: "string option \<Rightarrow> string" where
  "to_str None = ''undefined''"
| "to_str (Some s) = s"

text \<open>The i-th argument of a call; a missing argument is \<open>undefined\<close>.\<close>

definition arg :: "val list \<Rightarrow> nat \<Rightarrow> val" where
  "arg as i = (if i < length as then as ! i else Undefined)"

definition err_val :: "error option \<Rightarrow> val" where
  "err_val e = (case e of None \<Rightarrow> Null | Some x \<Rightarrow> Error x)"

text \<open>\<open>s.split(sep)\<close> for a one-character separator: always at least one segment.\<close>

fun split :: "char \<Rightarrow> string \<Rightarrow> string list" where
  "split sep [] = [[]]"
| "split sep (c # cs) =
     (if c = sep then [] # split sep cs
      else (c # hd (split sep cs)) # tl (split sep cs))"

text \<open>
  \<open>encodeURIComponent\<close>: the unreserved characters stay, every other byte of the UTF-8
  form becomes \<open>%XX\<close> in upper-case hexadecimal.
\<close>

definition unreserved :: "char \<Rightarrow> bool" where
  "unreserved c =
     (c \<in> set ''ABCDEFGHIJKLMNOPQRSTUVWXYZabcdefghijklmnopqrstuvwxyz0123456789-_.!~*()''
      \<or> c = CHR 0x27)"

definition hex_digit :: "nat \<Rightarrow> char" where
  "hex_digit n = ''0123456789ABCDEF'' ! (n mod 16)"

definition encodeURIComponent :: "string \<Rightarrow> string" where
  "encodeURIComponent s =
     concat (map (\<lambda>c. if unreserved c then [c]
                       else [CHR ''%'', hex_digit (of_char c div 16), hex_digit (of_char c mod 16)]) s)"

subsection \<open>Normalisation (lines 56 to 72)\<close>

text \<open>
  \<open>cLabel.color.charAt(0) === "#" ? cLabel.color.substring(1) : cLabel.color\<close>
\<close>

fun normalize_color :: "string \<Rightarrow> string" where
  "normalize_color [] = []"
| "normalize_color (c # cs) = (if c = CHR ''#'' then cs else c # cs)"

text \<open>
  The object literal of lines 58 to 63, for a label whose color is the string \<open>col\<close>:
  \<open>{ name: cLabel.name || cLabel.label, color: ... }\<close>. The new object has no alias.
\<close>

definition normalize_label :: "obj \<Rightarrow> string \<Rightarrow> obj" where
  "normalize_label cLabel col =
     \<lparr> name = (if truthy (name cLabel) then name cLabel else label cLabel),
       label = None,
       color = Some (normalize_color col) \<rparr>"

text \<open>How the loop can stop early: by the exception or by \<open>callback(new Error(...))\<close>.\<close>

datatype stop = Throw exn | Fail error

text \<open>
  The loop \<open>for (; i < labels.length; ++i)\<close>, from index \<open>i\<close>, on the array \<open>labels\<close>.
  It returns how it stopped and the array as it has become.
\<close>

function normalize_labels :: "nat \<Rightarrow> obj list \<Rightarrow> stop option \<times> obj list" where
  "normalize_labels i labels =
     (if i < length labels then
        (case color (labels ! i) of
           None \<Rightarrow> (Some (Throw TypeError), labels)
         | Some col \<Rightarrow>
             (let cLabel = normalize_label (labels ! i) col;
                  labels' = labels[i := cLabel]
              in if \<not> truthy (name cLabel) then (Some (Fail (MissingName i)), labels')
                 else if \<not> truthy (color cLabel) then (Some (Fail (MissingColor i)), labels')
                 else normalize_labels (Suc i) labels'))
      else (None, labels))"
  by pat_completeness auto
termination
  by (relation "measure (\<lambda>(i, labels). length labels - i)") auto

declare normalize_labels.simps [simp del]

subsection \<open>addToRepo (lines 145 to 164)\<close>

text \<open>The parameter \<open>label\<close> is one label or an array of labels (\<open>Array.isArray\<close>).\<close>

datatype label_arg = One obj | Many "obj list"

text \<open>
  \<open>SameTime(tasks, callback)\<close>: every task is started, in the same tick and whatever the
  others report; \<open>callback\<close> gets the join of what the tasks passed to \<open>done\<close>. A task
  is given here by what it did and what it passed.
\<close>

definition SameTime :: "env \<Rightarrow> task list \<Rightarrow> task" where
  "SameTime e tasks =
     \<lparr> requests = concat (map requests tasks),
       events = concat (map events tasks),
       calls = concat (map calls tasks),
       called = join e (map called tasks) \<rparr>"

function addToRepo :: "env \<Rightarrow> string \<Rightarrow> string \<Rightarrow> label_arg \<Rightarrow> string option list \<Rightarrow> task" where
  "addToRepo e owner rep (Many lbl) labels =
     SameTime e (map (\<lambda>c.
       (let t = addToRepo e owner rep (One c) labels;
            err = arg (called t) 0;
            data = arg (called t) 1
        in \<lparr> requests = requests t,
             events = events t @
               [\<lparr> e_owner = owner, e_repo = rep, e_label = c, e_err = err, e_data = data \<rparr>],
             calls = calls t,
             called = [Null, data] \<rparr>)) lbl)"
| "addToRepo e owner rep (One lbl) labels =
     (let endpoint = ''repos/'' @ owner @ ''/'' @ rep @ ''/labels'';
          endpoint = (if name lbl \<in> set labels
                      then endpoint @ ''/'' @ encodeURIComponent (to_str (name lbl))
                      else endpoint);
          req = \<lparr> endpoint = endpoint, opts = Data lbl \<rparr>;
          reply = writing e req
      in \<lparr> requests = [req], events = [], calls = [Call req []],
           called = [err_val (fst reply), snd reply] \<rparr>)"
  by pat_completeness auto
termination
  by (relation "measure (\<lambda>(e, owner, rep, lbl, labels). case lbl of Many _ \<Rightarrow> 1 | One _ \<Rightarrow> 0)") auto

declare addToRepo.simps [simp del]

subsection \<open>checkRepo (lines 116 to 128)\<close>

text \<open>
  The existing labels are requested without options. On an error the callback gets the
  error and nothing else happens; otherwise the answer is reduced to its names
  (\<open>labels[i] = labels[i].name\<close>) and \<open>addToRepo\<close> goes on with the same callback.
\<close>

definition checkRepo :: "env \<Rightarrow> string \<Rightarrow> string \<Rightarrow> label_arg \<Rightarrow> task" where
  "checkRepo e owner rep lbl =
     (let req = \<lparr> endpoint = ''repos/'' @ owner @ ''/'' @ rep @ ''/labels'', opts = NoOpts \<rparr>
      in case listing e req of
           Inl err \<Rightarrow>
             \<lparr> requests = [req], events = [], calls = [Call req []], called = [Error err] \<rparr>
         | Inr labels \<Rightarrow>
             (let labels = map name labels;
                  t = addToRepo e owner rep lbl labels
              in t \<lparr> requests := req # requests t, calls := [Call req (calls t)] \<rparr>))"

subsection \<open>GitHubLabeller (lines 27 to 100)\<close>

text \<open>
  The branches follow the source in its order: the request that asks for nothing
  (lines 38 to 41); the source (lines 44 to 53), where \<open>labels.concat(lbls)\<close> is a new
  array, \<open>delete options.source\<close> changes the object the caller passed, and the
  listener of line 50 emits every event of the inner emitter again on \<open>ev\<close>; the loop
  over the labels; the target (lines 74 to 97). The recursion ends because the inner
  call has no source.
\<close>

definition of_task :: "task \<Rightarrow> obj list \<Rightarrow> options \<Rightarrow> run" where
  "of_task t labels options =
     \<lparr> requests = requests t, events = events t, calls = calls t,
       outcome = Called (called t),
       labels_after = labels, options_after = options, emitter = True \<rparr>"

function GitHubLabeller :: "env \<Rightarrow> obj list \<Rightarrow> options \<Rightarrow> run" where
  "GitHubLabeller e labels options =
     (if labels = [] \<and> \<not> truthy (source options) then
        \<lparr> requests = [], events = [], calls = [], outcome = Called [Null, Null],
          labels_after = labels, options_after = options, emitter = True \<rparr>
      else if truthy (source options) then
        (let req = \<lparr> endpoint = ''repos/'' @ to_str (source options) @ ''/labels'', opts = AllPages \<rparr>
         in case listing e req of
              Inl err \<Rightarrow>
                \<lparr> requests = [req], events = [], calls = [Call req []],
                  outcome = Called [Error err],
                  labels_after = labels, options_after = options, emitter = True \<rparr>
            | Inr lbls \<Rightarrow>
                (let gl = GitHubLabeller e (labels @ lbls) (options \<lparr> source := None \<rparr>)
                 in \<lparr> requests = req # requests gl, events = events gl,
                      calls = [Call req (calls gl)], outcome = outcome gl,
                      labels_after = labels, options_after = options_after gl,
                      emitter = True \<rparr>))
      else
        (case normalize_labels 0 labels of
           (Some (Throw x), labels') \<Rightarrow>
             \<lparr> requests = [], events = [], calls = [], outcome = Thrown x,
               labels_after = labels', options_after = options, emitter = False \<rparr>
         | (Some (Fail err), labels') \<Rightarrow>
             \<lparr> requests = [], events = [], calls = [], outcome = Called [Error err],
               labels_after = labels', options_after = options, emitter = True \<rparr>
         | (None, labels') \<Rightarrow>
             (let splits = split CHR ''/'' (repo options);
                  user = (if length splits = 2 then splits ! 0 else repo options);
                  rep = (if length splits = 2 then Some (splits ! 1) else None)
              in if truthy rep then
                   of_task (checkRepo e user (to_str rep) (Many labels')) labels' options
                 else
                   (let req = \<lparr> endpoint = ''users/'' @ user @ ''/repos'', opts = AllPages \<rparr>
                    in case listing e req of
                         Inl err \<Rightarrow>
                           \<lparr> requests = [req], events = [], calls = [Call req []],
                             outcome = Called [Error err],
                             labels_after = labels', options_after = options, emitter = True \<rparr>
                       | Inr repos \<Rightarrow>
                           (let t = SameTime e (map (\<lambda>c.
                                      checkRepo e user (to_str (name c)) (Many labels')) repos)
                            in of_task (t \<lparr> requests := req # requests t,
                                           calls := [Call req (calls t)] \<rparr>) labels' options)))))"
  by pat_completeness auto
termination
  by (relation "measure (\<lambda>(e, labels, options). if truthy (source options) then 1 else 0)") auto

declare GitHubLabeller.simps [simp del]

subsection \<open>Vocabulary of the statements\<close>

text \<open>
  What the loop stores at an index it visits: the new object when the label has a color,
  the label itself when reading the color raises.
\<close>

definition normal :: "obj \<Rightarrow> obj" where
  "normal c = (case color c of None \<Rightarrow> c | Some col \<Rightarrow> normalize_label c col)"

text \<open>
  A label passes both checks of the loop: \<open>name\<close> or the alias is truthy, and the color
  is present and not empty once a leading \<open>#\<close> is gone.
\<close>

definition valid :: "obj \<Rightarrow> bool" where
  "valid c = ((truthy (name c) \<or> truthy (label c)) \<and>
              (case color c of None \<Rightarrow> False | Some col \<Rightarrow> normalize_color col \<noteq> []))"

text \<open>
  The two kinds of request on a repository's labels, in the words of the specification:
  the listing of the existing labels, and the write of one label, which goes to the
  label's own resource (its name URL-encoded) when the name is among the known names
  and to the collection otherwise.
\<close>

definition collection_endpoint :: "string \<Rightarrow> string \<Rightarrow> string" where
  "collection_endpoint owner rep = ''repos/'' @ owner @ ''/'' @ rep @ ''/labels''"

definition labels_request :: "string \<Rightarrow> string \<Rightarrow> request" where
  "labels_request owner rep = \<lparr> endpoint = collection_endpoint owner rep, opts = NoOpts \<rparr>"

definition upsert_request :: "string \<Rightarrow> string \<Rightarrow> string option list \<Rightarrow> obj \<Rightarrow> request" where
  "upsert_request owner rep known c =
     \<lparr> endpoint = (if name c \<in> set known
                     then collection_endpoint owner rep @ ''/'' @ encodeURIComponent (to_str (name c))
                     else collection_endpoint owner rep),
       opts = Data c \<rparr>"

text \<open>
  The requests of a call and of everything it sets off, the call first: the order in
  which \<open>requests\<close> lists them.
\<close>

fun issued :: "call \<Rightarrow> request list" where
  "issued (Call q cs) = q # concat (map issued cs)"

text \<open>
  The processing of one repository, by tick: the listing of its labels and, in the tick
  of its answer when the answer is no error, the writes of all the labels together.
\<close>

definition repo_call :: "env \<Rightarrow> string \<Rightarrow> string \<Rightarrow> obj list \<Rightarrow> call" where
  "repo_call e owner rep ls =
     Call (labels_request owner rep)
       (case listing e (labels_request owner rep) of
          Inl err \<Rightarrow> []
        | Inr existing \<Rightarrow>
            map (\<lambda>c. Call (upsert_request owner rep (map name existing) c) []) ls)"

text \<open>The \<open>"added"\<close> event of a label whose write was answered by \<open>reply\<close>.\<close>

definition added :: "string \<Rightarrow> string \<Rightarrow> obj \<Rightarrow> error option \<times> val \<Rightarrow> event" where
  "added owner rep c reply =
     \<lparr> e_owner = owner, e_repo = rep, e_label = c,
       e_err = err_val (fst reply), e_data = snd reply \<rparr>"

subsection \<open>An environment to evaluate in\<close>

text \<open>
  An instance of \<open>join\<close>, after the contract the same-time package documents: the final
  callback gets, position by position, the array of what the tasks passed to \<open>done\<close> in
  that position, and \<open>null\<close> in the first position when no task passed an error there.
  An array is filled by index (\<open>result[i][index] = args[i]\<close>), so it ends with the last
  task that passed something in that position, and a task before it that passed nothing
  there leaves \<open>undefined\<close>. The theorems below hold for every \<open>join\<close>; this one serves
  at concrete inputs.
\<close>

fun truthy_val :: "val \<Rightarrow> bool" where
  "truthy_val Undefined = False"
| "truthy_val Null = False"
| "truthy_val _ = True"

definition same_time_join :: "val list list \<Rightarrow> val list" where
  "same_time_join argss =
     (if argss = [] then [Null, Array []]
      else
        (let n = foldr (\<lambda>as m. max (length as) m) argss 0;
             result = map (\<lambda>i. map (\<lambda>as. arg as i)
                        (rev (dropWhile (\<lambda>as. length as \<le> i) (rev argss)))) [0..<n]
         in case result of
              [] \<Rightarrow> []
            | errs # rest \<Rightarrow>
                (if list_ex truthy_val errs then Array errs else Null) # map Array rest))"

text \<open>
  A small remote: the account \<open>acme\<close> owns \<open>a\<close>, \<open>b\<close> and \<open>c\<close>; the labels of \<open>b\<close>
  cannot be listed; \<open>widgets\<close> has the labels \<open>bug\<close> and \<open>help wanted\<close>; \<open>palette\<close>
  has \<open>bug\<close> and \<open>feat\<close>. Writing the label \<open>wontfix\<close> is refused.
\<close>

definition demo_listing :: "request \<Rightarrow> error + obj list" where
  "demo_listing q =
     (if endpoint q = ''users/acme/repos'' then
        Inr [\<lparr> name = Some ''a'', label = None, color = None \<rparr>,
             \<lparr> name = Some ''b'', label = None, color = None \<rparr>,
             \<lparr> name = Some ''c'', label = None, color = None \<rparr>]
      else if endpoint q = ''repos/acme/a/labels'' then
        Inr [\<lparr> name = Some ''bug'', label = None, color = Some ''d73a4a'' \<rparr>]
      else if endpoint q = ''repos/acme/c/labels'' then Inr []
      else if endpoint q = ''repos/acme/widgets/labels'' then
        Inr [\<lparr> name = Some ''bug'', label = None, color = Some ''d73a4a'' \<rparr>,
             \<lparr> name = Some ''help wanted'', label = None, color = Some ''008672'' \<rparr>]
      else if endpoint q = ''repos/acme/palette/labels'' then
        Inr [\<lparr> name = Some ''bug'', label = None, color = Some ''00f'' \<rparr>,
             \<lparr> name = Some ''feat'', label = None, color = Some ''0f0'' \<rparr>]
      else Inl (Remote ''Not Found''))"

definition demo_writing :: "request \<Rightarrow> error option \<times> val" where
  "demo_writing q =
     (case opts q of
        Data c \<Rightarrow>
          (if name c = Some ''wontfix'' then (Some (Remote ''Validation Failed''), Undefined)
           else (None, Object c))
      | _ \<Rightarrow> (Some (Remote ''Not Found''), Undefined))"

definition demo :: env where
  "demo = \<lparr> listing = demo_listing, writing = demo_writing, join = same_time_join \<rparr>"

text \<open>
  A remote with pages: the repository \<open>acme/big\<close> holds the labels \<open>held\<close>, and a page of
  the client has room for two. A listing with \<open>{ all: true }\<close> gives all the labels, a
  listing without gives the first page. Creating a label whose name the repository
  holds is refused, as the service refuses it; every other write is accepted.
\<close>

definition paged_listing :: "obj list \<Rightarrow> request \<Rightarrow> error + obj list" where
  "paged_listing held q =
     (if endpoint q = ''repos/acme/big/labels'' then
        (case opts q of AllPages \<Rightarrow> Inr held | _ \<Rightarrow> Inr (take 2 held))
      else Inl (Remote ''Not Found''))"

definition paged_writing :: "obj list \<Rightarrow> request \<Rightarrow> error option \<times> val" where
  "paged_writing held q =
     (case opts q of
        Data c \<Rightarrow>
          (if endpoint q = ''repos/acme/big/labels'' \<and> name c \<in> set (map name held)
           then (Some (Remote ''Validation Failed''), Undefined)
           else (None, Object c))
      | _ \<Rightarrow> (Some (Remote ''Not Found''), Undefined))"

definition paged :: "obj list \<Rightarrow> env" where
  "paged held =
     \<lparr> listing = paged_listing held, writing = paged_writing held, join = same_time_join \<rparr>"

section \<open>Properties\<close>

subsection \<open>The normalisation loop\<close>

lemma nth_map_append_length [simp]: "(map f xs @ c # ys) ! length xs = c"
  by (simp add: nth_append)

lemma update_map_append_length [simp]:
  "(map f xs @ c # ys)[length xs := v] = map f xs @ v # ys"
  by (simp add: list_update_append)

text \<open>Over a stretch of valid labels the loop stores the new objects and goes on.\<close>

lemma normalize_labels_skip:
  "list_all valid xs \<Longrightarrow>
   normalize_labels (length ps) (ps @ xs @ rest) =
   normalize_labels (length ps + length xs) (ps @ map normal xs @ rest)"
proof (induction xs arbitrary: ps)
  case Nil
  show ?case by simp
next
  case (Cons x xs)
  from Cons.prems have vx: "valid x" and rest: "list_all valid xs"
    by simp_all
  from vx obtain col where col: "color x = Some col"
    and ok: "truthy (name x) \<or> truthy (label x)" "normalize_color col \<noteq> []"
    by (cases "color x") (auto simp: valid_def)
  have nx: "normal x = normalize_label x col" by (simp add: normal_def col)
  have "normalize_labels (length ps) (ps @ (x # xs) @ rest) =
        normalize_labels (Suc (length ps)) (ps @ normal x # xs @ rest)"
    using col ok by (subst normalize_labels.simps) (auto simp: Let_def nx normalize_label_def)
  also have "\<dots> = normalize_labels (length (ps @ [normal x])) ((ps @ [normal x]) @ xs @ rest)"
    by simp
  also have "\<dots> = normalize_labels (length (ps @ [normal x]) + length xs)
                     ((ps @ [normal x]) @ map normal xs @ rest)"
    by (rule Cons.IH [OF rest])
  finally show ?case by simp
qed

lemma normalize_labels_valid:
  "list_all valid ls \<Longrightarrow> normalize_labels 0 ls = (None, map normal ls)"
  using normalize_labels_skip [of ls "[]" "[]"]
  by (simp add: normalize_labels.simps [of "length ls"])

text \<open>The first label that is not valid stops the loop: by the exception ...\<close>

lemma normalize_labels_throw:
  assumes "list_all valid xs" and "color c = None"
  shows "normalize_labels 0 (xs @ c # ys) = (Some (Throw TypeError), map normal xs @ c # ys)"
  using normalize_labels_skip [OF assms(1), of "[]" "c # ys"] assms(2)
  by (simp add: normalize_labels.simps [of "length xs"])

text \<open>... or by an error that carries its index.\<close>

lemma normalize_labels_fail:
  assumes "list_all valid xs" and "color c = Some col" and "\<not> valid c"
  shows "normalize_labels 0 (xs @ c # ys) =
         (Some (Fail (if truthy (name c) \<or> truthy (label c)
                      then MissingColor (length xs) else MissingName (length xs))),
          map normal xs @ normal c # ys)"
  using normalize_labels_skip [OF assms(1), of "[]" "c # ys"] assms(2,3)
  by (auto simp: normalize_labels.simps [of "length xs"] Let_def normal_def
        normalize_label_def valid_def)

lemma normalize_labels_None:
  assumes "normalize_labels 0 ls = (None, ls')"
  shows "list_all valid ls \<and> ls' = map normal ls"
proof (cases "list_all valid ls")
  case True
  with assms show ?thesis by (simp add: normalize_labels_valid)
next
  case False
  then have "\<exists>x \<in> set ls. \<not> valid x" by (simp add: list_all_iff)
  then obtain xs c ys where ls: "ls = xs @ c # ys" and c: "\<not> valid c"
    and xs: "\<forall>x \<in> set xs. valid x"
    by (auto dest!: split_list_first_prop)
  from xs have v: "list_all valid xs" by (simp add: list_all_iff)
  show ?thesis
  proof (cases "color c")
    case None
    with assms ls v show ?thesis by (simp add: normalize_labels_throw)
  next
    case (Some col)
    with assms ls v c show ?thesis by (simp add: normalize_labels_fail)
  qed
qed

subsection \<open>The request that asks for nothing\<close>

text \<open>
  C7. With an empty \<open>labels\<close> array and no source (absent or empty), the callback is
  called with \<open>(null, null)\<close>, and that is all that happens: no request is issued, no
  event is emitted, and the emitter is returned.
\<close>

theorem noop_request:
  assumes "labels = []" and "\<not> truthy (source options)"
  shows "outcome (GitHubLabeller e labels options) = Called [Null, Null] \<and>
         requests (GitHubLabeller e labels options) = [] \<and>
         events (GitHubLabeller e labels options) = [] \<and>
         emitter (GitHubLabeller e labels options)"
  using assms by (simp add: GitHubLabeller.simps)

theorem noop_request_witness:
  "outcome (GitHubLabeller demo [] \<lparr> repo = ''acme'', source = None, token = ''t'' \<rparr>)
     = Called [Null, Null] \<and>
   requests (GitHubLabeller demo [] \<lparr> repo = ''acme'', source = None, token = ''t'' \<rparr>) = [] \<and>
   events (GitHubLabeller demo [] \<lparr> repo = ''acme'', source = None, token = ''t'' \<rparr>) = [] \<and>
   emitter (GitHubLabeller demo [] \<lparr> repo = ''acme'', source = None, token = ''t'' \<rparr>)"
  using noop_request [of "[]" "\<lparr> repo = ''acme'', source = None, token = ''t'' \<rparr>" demo]
  by simp

subsection \<open>Colors\<close>

text \<open>
  C8, as the code has it. Normalising a color removes one leading \<open>#\<close> and nothing
  else, so \<open>#\<close> followed by \<open>h\<close> is stored as \<open>h\<close>; when \<open>h\<close> does not itself begin
  with \<open>#\<close> (hexadecimal digits never do) the color with and without the \<open>#\<close> are stored
  alike; and normalising twice is normalising once for every color that does not begin
  with two \<open>#\<close>.
\<close>

theorem normalize_color_one_hash:
  "(normalize_color c = c \<or> c = CHR ''#'' # normalize_color c) \<and>
   normalize_color (CHR ''#'' # h) = h \<and>
   (take 1 h \<noteq> ''#'' \<longrightarrow> normalize_color (CHR ''#'' # h) = normalize_color h) \<and>
   (take 2 c \<noteq> ''##'' \<longrightarrow> normalize_color (normalize_color c) = normalize_color c)"
proof -
  have a: "normalize_color c = c \<or> c = CHR ''#'' # normalize_color c"
    by (cases c) auto
  have b: "take 1 h \<noteq> ''#'' \<longrightarrow> normalize_color (CHR ''#'' # h) = normalize_color h"
    by (cases h) auto
  have d: "take 2 c \<noteq> ''##'' \<longrightarrow> normalize_color (normalize_color c) = normalize_color c"
  proof (cases c)
    case Nil
    then show ?thesis by simp
  next
    case (Cons x xs)
    then show ?thesis by (cases xs) auto
  qed
  from a b d show ?thesis by simp
qed

theorem normalize_color_one_hash_witness:
  "take 1 ''f00'' \<noteq> ''#'' \<and> take 2 ''#f00'' \<noteq> ''##'' \<and>
   normalize_color ''#f00'' = ''f00'' \<and> normalize_color ''f00'' = ''f00'' \<and>
   normalize_color (normalize_color ''#f00'') = normalize_color ''#f00''"
  using normalize_color_one_hash [of "''#f00''" "''f00''"] by simp

text \<open>With two leading \<open>#\<close> the second pass removes the second one.\<close>

theorem normalize_color_twice_counterexample:
  "normalize_color (normalize_color ''##f00'') \<noteq> normalize_color ''##f00''"
  by simp

subsection \<open>addToRepo and checkRepo\<close>

lemma addToRepo_One:
  "addToRepo e owner rep (One c) known =
     \<lparr> requests = [upsert_request owner rep known c],
       events = [],
       calls = [Call (upsert_request owner rep known c) []],
       called = [err_val (fst (writing e (upsert_request owner rep known c))),
                 snd (writing e (upsert_request owner rep known c))] \<rparr>"
  by (simp add: addToRepo.simps(2) Let_def upsert_request_def collection_endpoint_def)

lemma addToRepo_Many:
  "addToRepo e owner rep (Many ls) known =
     \<lparr> requests = map (upsert_request owner rep known) ls,
       events = map (\<lambda>c. added owner rep c (writing e (upsert_request owner rep known c))) ls,
       calls = map (\<lambda>c. Call (upsert_request owner rep known c) []) ls,
       called = join e (map (\<lambda>c. [Null, snd (writing e (upsert_request owner rep known c))]) ls) \<rparr>"
proof -
  have "concat (map (\<lambda>c. [f c]) ls) = map f ls" for f :: "obj \<Rightarrow> 'a"
    by (induction ls) simp_all
  then show ?thesis
    by (simp add: addToRepo.simps(1) addToRepo_One SameTime_def Let_def comp_def arg_def added_def)
qed

lemma checkRepo_Many:
  "checkRepo e owner rep (Many ls) =
     (case listing e (labels_request owner rep) of
        Inl err \<Rightarrow>
          \<lparr> requests = [labels_request owner rep], events = [],
            calls = [Call (labels_request owner rep) []], called = [Error err] \<rparr>
      | Inr existing \<Rightarrow>
          \<lparr> requests = labels_request owner rep #
                map (upsert_request owner rep (map name existing)) ls,
            events = map (\<lambda>c. added owner rep c
                       (writing e (upsert_request owner rep (map name existing) c))) ls,
            calls = [Call (labels_request owner rep)
                       (map (\<lambda>c. Call (upsert_request owner rep (map name existing) c) []) ls)],
            called = join e (map (\<lambda>c.
                       [Null, snd (writing e (upsert_request owner rep (map name existing) c))]) ls) \<rparr>)"
  by (simp add: checkRepo_def Let_def labels_request_def collection_endpoint_def addToRepo_Many
      split: sum.splits)

lemma requests_addToRepo_Data:
  "q \<in> set (requests (addToRepo e owner rep l known)) \<Longrightarrow> \<exists>c. opts q = Data c"
  by (cases l) (auto simp: addToRepo_One addToRepo_Many upsert_request_def)

lemma requests_checkRepo_not_AllPages:
  "q \<in> set (requests (checkRepo e owner rep l)) \<Longrightarrow> opts q \<noteq> AllPages"
  by (auto simp: checkRepo_def Let_def split: sum.splits dest: requests_addToRepo_Data)

lemma no_AllPages_in_checkRepo:
  "filter (\<lambda>q. opts q = AllPages)
     (concat (map (\<lambda>c. requests (checkRepo e owner (f c) l)) cs)) = []"
  by (induction cs) (auto simp: filter_empty_conv dest: requests_checkRepo_not_AllPages)


lemma calls_checkRepo: "calls (checkRepo e owner rep (Many ls)) = [repo_call e owner rep ls]"
  by (simp add: checkRepo_Many repo_call_def split: sum.splits)

text \<open>The two records of the requests agree: \<open>requests\<close> lists the calls, each first.\<close>

lemma requests_addToRepo_by_tick:
  "requests (addToRepo e owner rep l known) =
   concat (map issued (calls (addToRepo e owner rep l known)))"
proof (cases l)
  case (One c)
  then show ?thesis by (simp add: addToRepo_One)
next
  case (Many ls)
  have "concat (map (issued \<circ> (\<lambda>c. Call (f c) [])) ls) = map f ls" for f :: "obj \<Rightarrow> request"
    by (induction ls) simp_all
  with Many show ?thesis by (simp add: addToRepo_Many)
qed

lemma requests_checkRepo_by_tick:
  "requests (checkRepo e owner rep l) = concat (map issued (calls (checkRepo e owner rep l)))"
  by (simp add: checkRepo_def Let_def requests_addToRepo_by_tick split: sum.splits)

subsection \<open>GitHubLabeller on labels that pass\<close>

lemma GitHubLabeller_explicit:
  assumes "\<not> truthy (source options)" and "labels \<noteq> []" and "list_all valid labels"
    and "split CHR ''/'' (repo options) = [u, r]" and "r \<noteq> []"
  shows "GitHubLabeller e labels options =
           \<lparr> requests = requests (checkRepo e u r (Many (map normal labels))),
             events = events (checkRepo e u r (Many (map normal labels))),
             calls = calls (checkRepo e u r (Many (map normal labels))),
             outcome = Called (called (checkRepo e u r (Many (map normal labels)))),
             labels_after = map normal labels, options_after = options, emitter = True \<rparr>"
  using assms by (simp add: GitHubLabeller.simps normalize_labels_valid Let_def of_task_def)

lemma GitHubLabeller_owner_failed:
  assumes "\<not> truthy (source options)" and "labels \<noteq> []" and "list_all valid labels"
    and "split CHR ''/'' (repo options) = [u, []] \<or>
         length (split CHR ''/'' (repo options)) \<noteq> 2 \<and> u = repo options"
    and "listing e \<lparr> endpoint = ''users/'' @ u @ ''/repos'', opts = AllPages \<rparr> = Inl err"
  shows "GitHubLabeller e labels options =
           \<lparr> requests = [\<lparr> endpoint = ''users/'' @ u @ ''/repos'', opts = AllPages \<rparr>],
             events = [],
             calls = [Call \<lparr> endpoint = ''users/'' @ u @ ''/repos'', opts = AllPages \<rparr> []],
             outcome = Called [Error err],
             labels_after = map normal labels, options_after = options, emitter = True \<rparr>"
  using assms by (auto simp add: GitHubLabeller.simps normalize_labels_valid Let_def)

lemma GitHubLabeller_owner_listed:
  assumes "\<not> truthy (source options)" and "labels \<noteq> []" and "list_all valid labels"
    and "split CHR ''/'' (repo options) = [u, []] \<or>
         length (split CHR ''/'' (repo options)) \<noteq> 2 \<and> u = repo options"
    and "listing e \<lparr> endpoint = ''users/'' @ u @ ''/repos'', opts = AllPages \<rparr> = Inr repos"
  shows "GitHubLabeller e labels options =
           \<lparr> requests = \<lparr> endpoint = ''users/'' @ u @ ''/repos'', opts = AllPages \<rparr> #
               concat (map (\<lambda>c. requests (checkRepo e u (to_str (name c)) (Many (map normal labels)))) repos),
             events =
               concat (map (\<lambda>c. events (checkRepo e u (to_str (name c)) (Many (map normal labels)))) repos),
             calls = [Call \<lparr> endpoint = ''users/'' @ u @ ''/repos'', opts = AllPages \<rparr>
               (concat (map (\<lambda>c. calls (checkRepo e u (to_str (name c)) (Many (map normal labels)))) repos))],
             outcome = Called (join e
               (map (\<lambda>c. called (checkRepo e u (to_str (name c)) (Many (map normal labels)))) repos)),
             labels_after = map normal labels, options_after = options, emitter = True \<rparr>"
  using assms
  by (auto simp add: GitHubLabeller.simps normalize_labels_valid Let_def of_task_def SameTime_def comp_def)


subsection \<open>Requests by tick\<close>

lemma concat_issued:
  "concat (map (\<lambda>x. concat (map issued (g x))) xs) = concat (map issued (concat (map g xs)))"
  by (induction xs) simp_all

lemma requests_by_tick_no_source:
  assumes "\<not> truthy (source options)"
  shows "requests (GitHubLabeller e labels options) =
         concat (map issued (calls (GitHubLabeller e labels options)))"
  using assms
  by (simp add: GitHubLabeller.simps [of e labels options] Let_def of_task_def SameTime_def
      comp_def requests_checkRepo_by_tick concat_issued
      split: prod.splits option.splits stop.splits sum.splits)

lemma requests_by_tick:
  "requests (GitHubLabeller e labels options) =
   concat (map issued (calls (GitHubLabeller e labels options)))"
proof (cases "truthy (source options)")
  case False
  then show ?thesis by (rule requests_by_tick_no_source)
next
  case True
  have "requests (GitHubLabeller e ls (options \<lparr> source := None \<rparr>)) =
      concat (map issued (calls (GitHubLabeller e ls (options \<lparr> source := None \<rparr>))))" for ls
    by (rule requests_by_tick_no_source) simp
  with True show ?thesis
    by (simp add: GitHubLabeller.simps [of e labels options] Let_def split: sum.splits)
qed

subsection \<open>Targets\<close>

text \<open>
  C5, as the code has it. Take a run without a source whose labels are not empty and
  pass the checks, so that the target is reached. When \<open>options.repo\<close> splits on \<open>/\<close>
  into two segments and the second is not empty, the one repository is processed
  directly: the only request of the first tick is the listing of its labels, and no
  listing with all pages is requested. When it splits into two segments and the second
  is empty, the first segment is the owner; when it splits into any other number of
  segments, the whole string is the owner. In both owner cases exactly one listing of
  the owner's repositories is requested, and when it succeeds every repository of the
  answer is processed, all of them concurrently: the listings of their labels are
  issued together in the tick of that answer, none waiting for another, and the
  callback gets the join of their results.
\<close>

theorem target_parsing:
  assumes "\<not> truthy (source options)" and "labels \<noteq> []" and "list_all valid labels"
  shows
    "(split CHR ''/'' (repo options) = [u, r] \<and> r \<noteq> [] \<longrightarrow>
        calls (GitHubLabeller e labels options) = [repo_call e u r (map normal labels)] \<and>
        requests (GitHubLabeller e labels options) =
          requests (checkRepo e u r (Many (map normal labels))) \<and>
        events (GitHubLabeller e labels options) =
          events (checkRepo e u r (Many (map normal labels))) \<and>
        outcome (GitHubLabeller e labels options) =
          Called (called (checkRepo e u r (Many (map normal labels)))) \<and>
        filter (\<lambda>q. opts q = AllPages) (requests (GitHubLabeller e labels options)) = []) \<and>
     ((split CHR ''/'' (repo options) = [v, []] \<or>
       length (split CHR ''/'' (repo options)) \<noteq> 2 \<and> v = repo options) \<longrightarrow>
        filter (\<lambda>q. opts q = AllPages) (requests (GitHubLabeller e labels options)) =
          [\<lparr> endpoint = ''users/'' @ v @ ''/repos'', opts = AllPages \<rparr>] \<and>
        (listing e \<lparr> endpoint = ''users/'' @ v @ ''/repos'', opts = AllPages \<rparr> = Inr repos \<longrightarrow>
           calls (GitHubLabeller e labels options) =
             [Call \<lparr> endpoint = ''users/'' @ v @ ''/repos'', opts = AllPages \<rparr>
                (map (\<lambda>c. repo_call e v (to_str (name c)) (map normal labels)) repos)] \<and>
           requests (GitHubLabeller e labels options) =
             \<lparr> endpoint = ''users/'' @ v @ ''/repos'', opts = AllPages \<rparr> #
             concat (map (\<lambda>c. requests (checkRepo e v (to_str (name c)) (Many (map normal labels)))) repos) \<and>
           events (GitHubLabeller e labels options) =
             concat (map (\<lambda>c. events (checkRepo e v (to_str (name c)) (Many (map normal labels)))) repos) \<and>
           outcome (GitHubLabeller e labels options) =
             Called (join e (map (\<lambda>c. called (checkRepo e v (to_str (name c)) (Many (map normal labels)))) repos))))"
proof (intro conjI impI)
  assume two: "split CHR ''/'' (repo options) = [u, r] \<and> r \<noteq> []"
  note run = GitHubLabeller_explicit [OF assms, of u r e]
  from two show "calls (GitHubLabeller e labels options) = [repo_call e u r (map normal labels)]"
    by (simp add: run calls_checkRepo)
  from two show "requests (GitHubLabeller e labels options) =
      requests (checkRepo e u r (Many (map normal labels)))"
    by (simp add: run)
  from two show "events (GitHubLabeller e labels options) =
      events (checkRepo e u r (Many (map normal labels)))"
    by (simp add: run)
  from two show "outcome (GitHubLabeller e labels options) =
      Called (called (checkRepo e u r (Many (map normal labels))))"
    by (simp add: run)
  from two show "filter (\<lambda>q. opts q = AllPages) (requests (GitHubLabeller e labels options)) = []"
    by (auto simp: run filter_empty_conv dest: requests_checkRepo_not_AllPages)
next
  assume one: "split CHR ''/'' (repo options) = [v, []] \<or>
       length (split CHR ''/'' (repo options)) \<noteq> 2 \<and> v = repo options"
  show "filter (\<lambda>q. opts q = AllPages) (requests (GitHubLabeller e labels options)) =
          [\<lparr> endpoint = ''users/'' @ v @ ''/repos'', opts = AllPages \<rparr>]"
  proof (cases "listing e \<lparr> endpoint = ''users/'' @ v @ ''/repos'', opts = AllPages \<rparr>")
    case (Inl err)
    show ?thesis by (simp add: GitHubLabeller_owner_failed [OF assms one Inl])
  next
    case (Inr repos)
    show ?thesis
      by (simp add: GitHubLabeller_owner_listed [OF assms one Inr] no_AllPages_in_checkRepo)
  qed
next
  assume one: "split CHR ''/'' (repo options) = [v, []] \<or>
       length (split CHR ''/'' (repo options)) \<noteq> 2 \<and> v = repo options"
    and l: "listing e \<lparr> endpoint = ''users/'' @ v @ ''/repos'', opts = AllPages \<rparr> = Inr repos"
  note run = GitHubLabeller_owner_listed [OF assms one l]
  have together: "concat (map (\<lambda>c. calls (checkRepo e v (to_str (name c)) (Many ls))) repos) =
      map (\<lambda>c. repo_call e v (to_str (name c)) ls) repos" for ls
    by (induction repos) (simp_all add: calls_checkRepo)
  show "calls (GitHubLabeller e labels options) =
             [Call \<lparr> endpoint = ''users/'' @ v @ ''/repos'', opts = AllPages \<rparr>
                (map (\<lambda>c. repo_call e v (to_str (name c)) (map normal labels)) repos)]"
    by (simp add: run together)
  show "requests (GitHubLabeller e labels options) =
             \<lparr> endpoint = ''users/'' @ v @ ''/repos'', opts = AllPages \<rparr> #
             concat (map (\<lambda>c. requests (checkRepo e v (to_str (name c)) (Many (map normal labels)))) repos)"
    by (simp add: run)
  show "events (GitHubLabeller e labels options) =
             concat (map (\<lambda>c. events (checkRepo e v (to_str (name c)) (Many (map normal labels)))) repos)"
    by (simp add: run)
  show "outcome (GitHubLabeller e labels options) =
             Called (join e (map (\<lambda>c. called (checkRepo e v (to_str (name c)) (Many (map normal labels)))) repos))"
    by (simp add: run)
qed

theorem target_parsing_witness:
  "calls (GitHubLabeller demo [\<lparr> name = Some ''bug'', label = None, color = Some ''#f00'' \<rparr>]
      \<lparr> repo = ''acme/widgets'', source = None, token = ''t'' \<rparr>) =
     [Call \<lparr> endpoint = ''repos/acme/widgets/labels'', opts = NoOpts \<rparr>
        [Call \<lparr> endpoint = ''repos/acme/widgets/labels/bug'',
                 opts = Data \<lparr> name = Some ''bug'', label = None, color = Some ''f00'' \<rparr> \<rparr> []]] \<and>
   filter (\<lambda>q. opts q = AllPages)
     (requests (GitHubLabeller demo [\<lparr> name = Some ''bug'', label = None, color = Some ''#f00'' \<rparr>]
        \<lparr> repo = ''acme/widgets'', source = None, token = ''t'' \<rparr>)) = [] \<and>
   filter (\<lambda>q. opts q = AllPages)
     (requests (GitHubLabeller demo [\<lparr> name = Some ''bug'', label = None, color = Some ''#f00'' \<rparr>]
        \<lparr> repo = ''a/b/c'', source = None, token = ''t'' \<rparr>)) =
     [\<lparr> endpoint = ''users/a/b/c/repos'', opts = AllPages \<rparr>] \<and>
   filter (\<lambda>q. opts q = AllPages)
     (requests (GitHubLabeller demo [\<lparr> name = Some ''bug'', label = None, color = Some ''#f00'' \<rparr>]
        \<lparr> repo = ''acme/'', source = None, token = ''t'' \<rparr>)) =
     [\<lparr> endpoint = ''users/acme/repos'', opts = AllPages \<rparr>] \<and>
   calls (GitHubLabeller demo [\<lparr> name = Some ''bug'', label = None, color = Some ''#f00'' \<rparr>]
      \<lparr> repo = ''acme'', source = None, token = ''t'' \<rparr>) =
     [Call \<lparr> endpoint = ''users/acme/repos'', opts = AllPages \<rparr>
        [Call \<lparr> endpoint = ''repos/acme/a/labels'', opts = NoOpts \<rparr>
           [Call \<lparr> endpoint = ''repos/acme/a/labels/bug'',
                    opts = Data \<lparr> name = Some ''bug'', label = None, color = Some ''f00'' \<rparr> \<rparr> []],
         Call \<lparr> endpoint = ''repos/acme/b/labels'', opts = NoOpts \<rparr> [],
         Call \<lparr> endpoint = ''repos/acme/c/labels'', opts = NoOpts \<rparr>
           [Call \<lparr> endpoint = ''repos/acme/c/labels'',
                    opts = Data \<lparr> name = Some ''bug'', label = None, color = Some ''f00'' \<rparr> \<rparr> []]]]"
proof -
  let ?labels = "[\<lparr> name = Some ''bug'', label = None, color = Some ''#f00'' \<rparr>]"
  let ?repos = "[\<lparr> name = Some ''a'', label = None, color = None \<rparr>,
                 \<lparr> name = Some ''b'', label = None, color = None \<rparr>,
                 \<lparr> name = Some ''c'', label = None, color = None \<rparr>]"
  have ne: "?labels \<noteq> []" and ok: "list_all valid ?labels"
    by (simp_all add: valid_def)
  have ns: "\<not> truthy (source \<lparr> repo = r, source = None, token = ''t'' \<rparr>)" for r
    by simp
  have explicit: "split CHR ''/'' (repo \<lparr> repo = ''acme/widgets'', source = None, token = ''t'' \<rparr>) =
      [''acme'', ''widgets''] \<and> ''widgets'' \<noteq> []"
    and raw: "split CHR ''/'' (repo \<lparr> repo = ''a/b/c'', source = None, token = ''t'' \<rparr>) = [''a/b/c'', []] \<or>
      length (split CHR ''/'' (repo \<lparr> repo = ''a/b/c'', source = None, token = ''t'' \<rparr>)) \<noteq> 2 \<and>
      ''a/b/c'' = repo \<lparr> repo = ''a/b/c'', source = None, token = ''t'' \<rparr>"
    and owner: "split CHR ''/'' (repo \<lparr> repo = ''acme'', source = None, token = ''t'' \<rparr>) = [''acme'', []] \<or>
      length (split CHR ''/'' (repo \<lparr> repo = ''acme'', source = None, token = ''t'' \<rparr>)) \<noteq> 2 \<and>
      ''acme'' = repo \<lparr> repo = ''acme'', source = None, token = ''t'' \<rparr>"
    and slash: "split CHR ''/'' (repo \<lparr> repo = ''acme/'', source = None, token = ''t'' \<rparr>) = [''acme'', []] \<or>
      length (split CHR ''/'' (repo \<lparr> repo = ''acme/'', source = None, token = ''t'' \<rparr>)) \<noteq> 2 \<and>
      ''acme'' = repo \<lparr> repo = ''acme/'', source = None, token = ''t'' \<rparr>"
    and listed: "listing demo \<lparr> endpoint = ''users/'' @ ''acme'' @ ''/repos'', opts = AllPages \<rparr> = Inr ?repos"
    by (simp_all add: demo_def demo_listing_def)
  note trailing = target_parsing [OF ns ne ok, where e = demo, THEN conjunct2, THEN mp, OF slash,
      THEN conjunct1]
  note one = target_parsing [OF ns ne ok, where e = demo, THEN conjunct1, THEN mp, OF explicit]
  note three = target_parsing [OF ns ne ok, where e = demo, THEN conjunct2, THEN mp, OF raw,
      THEN conjunct1]
  note all = target_parsing [OF ns ne ok, where e = demo, THEN conjunct2, THEN mp, OF owner,
      THEN conjunct2, THEN mp, OF listed, THEN conjunct1]
  have a: "calls (GitHubLabeller demo ?labels \<lparr> repo = ''acme/widgets'', source = None, token = ''t'' \<rparr>) =
     [Call \<lparr> endpoint = ''repos/acme/widgets/labels'', opts = NoOpts \<rparr>
        [Call \<lparr> endpoint = ''repos/acme/widgets/labels/bug'',
                 opts = Data \<lparr> name = Some ''bug'', label = None, color = Some ''f00'' \<rparr> \<rparr> []]]"
    unfolding one [THEN conjunct1] by code_simp
  have b: "filter (\<lambda>q. opts q = AllPages)
     (requests (GitHubLabeller demo ?labels \<lparr> repo = ''acme/widgets'', source = None, token = ''t'' \<rparr>)) = []"
    using one by blast
  have c: "calls (GitHubLabeller demo ?labels \<lparr> repo = ''acme'', source = None, token = ''t'' \<rparr>) =
     [Call \<lparr> endpoint = ''users/acme/repos'', opts = AllPages \<rparr>
        [Call \<lparr> endpoint = ''repos/acme/a/labels'', opts = NoOpts \<rparr>
           [Call \<lparr> endpoint = ''repos/acme/a/labels/bug'',
                    opts = Data \<lparr> name = Some ''bug'', label = None, color = Some ''f00'' \<rparr> \<rparr> []],
         Call \<lparr> endpoint = ''repos/acme/b/labels'', opts = NoOpts \<rparr> [],
         Call \<lparr> endpoint = ''repos/acme/c/labels'', opts = NoOpts \<rparr>
           [Call \<lparr> endpoint = ''repos/acme/c/labels'',
                    opts = Data \<lparr> name = Some ''bug'', label = None, color = Some ''f00'' \<rparr> \<rparr> []]]]"
    unfolding all by code_simp
  from a b three trailing c show ?thesis by simp
qed

text \<open>
  A trailing slash gives two segments, yet the repositories of the owner are listed.
\<close>

theorem trailing_slash_counterexample:
  "length (split CHR ''/'' ''acme/'') = 2 \<and>
   hd (requests (GitHubLabeller demo [\<lparr> name = Some ''bug'', label = None, color = Some ''#f00'' \<rparr>]
         \<lparr> repo = ''acme/'', source = None, token = ''t'' \<rparr>)) =
     \<lparr> endpoint = ''users/acme/repos'', opts = AllPages \<rparr>"
  by code_simp

subsection \<open>Validation\<close>

lemma GitHubLabeller_invalid:
  assumes "\<not> truthy (source options)" and "list_all valid xs" and "\<not> valid c"
    and "color c = Some col"
  shows "GitHubLabeller e (xs @ c # ys) options =
           \<lparr> requests = [], events = [], calls = [],
             outcome = Called [Error (if truthy (name c) \<or> truthy (label c)
                                      then MissingColor (length xs) else MissingName (length xs))],
             labels_after = map normal xs @ normal c # ys, options_after = options,
             emitter = True \<rparr>"
  using assms by (simp add: GitHubLabeller.simps normalize_labels_fail)

lemma GitHubLabeller_throws:
  assumes "\<not> truthy (source options)" and "list_all valid xs" and "color c = None"
  shows "GitHubLabeller e (xs @ c # ys) options =
           \<lparr> requests = [], events = [], calls = [], outcome = Thrown TypeError,
             labels_after = map normal xs @ c # ys, options_after = options,
             emitter = False \<rparr>"
  using assms by (simp add: GitHubLabeller.simps normalize_labels_throw)

text \<open>
  C6, as the code has it. Take a list of labels in which the first label that fails a
  check has a color string: every label before it has a truthy name or alias and a
  color that is not empty once a leading \<open>#\<close> is gone, and the label itself has a color
  string, but its name and its alias are both missing or empty, or its color is empty
  once a leading \<open>#\<close> is gone. Without a source, the callback is called with one
  argument, the error that carries the index of that label (for the name when the name
  fails, else for the color); no request is issued and no event is emitted. With a
  source whose labels can be fetched, the same holds of the merged list, the labels
  passed followed by those of the source: the request for the labels of the source is
  the only one. A label without a color field is not covered.
\<close>

theorem validation_error_aborts:
  assumes "list_all valid xs" and "\<not> valid c" and "color c = Some col"
  shows
    "(\<not> truthy (source options) \<longrightarrow>
        outcome (GitHubLabeller e (xs @ c # ys) options) =
          Called [Error (if truthy (name c) \<or> truthy (label c)
                         then MissingColor (length xs) else MissingName (length xs))] \<and>
        requests (GitHubLabeller e (xs @ c # ys) options) = [] \<and>
        events (GitHubLabeller e (xs @ c # ys) options) = []) \<and>
     (truthy (source options) \<and>
      listing e \<lparr> endpoint = ''repos/'' @ to_str (source options) @ ''/labels'', opts = AllPages \<rparr>
        = Inr lbls \<and>
      labels @ lbls = xs @ c # ys \<longrightarrow>
        outcome (GitHubLabeller e labels options) =
          Called [Error (if truthy (name c) \<or> truthy (label c)
                         then MissingColor (length xs) else MissingName (length xs))] \<and>
        requests (GitHubLabeller e labels options) =
          [\<lparr> endpoint = ''repos/'' @ to_str (source options) @ ''/labels'', opts = AllPages \<rparr>] \<and>
        events (GitHubLabeller e labels options) = [])"
proof (intro conjI impI)
  assume ns: "\<not> truthy (source options)"
  note run = GitHubLabeller_invalid [OF ns assms]
  show "outcome (GitHubLabeller e (xs @ c # ys) options) =
          Called [Error (if truthy (name c) \<or> truthy (label c)
                         then MissingColor (length xs) else MissingName (length xs))]"
    and "requests (GitHubLabeller e (xs @ c # ys) options) = []"
    and "events (GitHubLabeller e (xs @ c # ys) options) = []"
    by (simp_all add: run)
next
  assume src: "truthy (source options) \<and>
      listing e \<lparr> endpoint = ''repos/'' @ to_str (source options) @ ''/labels'', opts = AllPages \<rparr>
        = Inr lbls \<and>
      labels @ lbls = xs @ c # ys"
  have inner: "GitHubLabeller e (xs @ c # ys) (options \<lparr> source := None \<rparr>) =
      \<lparr> requests = [], events = [], calls = [],
        outcome = Called [Error (if truthy (name c) \<or> truthy (label c)
                                 then MissingColor (length xs) else MissingName (length xs))],
        labels_after = map normal xs @ normal c # ys,
        options_after = options \<lparr> source := None \<rparr>, emitter = True \<rparr>"
    using GitHubLabeller_invalid [OF _ assms, of "options \<lparr> source := None \<rparr>" e ys]
    by simp
  from src show "outcome (GitHubLabeller e labels options) =
          Called [Error (if truthy (name c) \<or> truthy (label c)
                         then MissingColor (length xs) else MissingName (length xs))]"
    and "requests (GitHubLabeller e labels options) =
          [\<lparr> endpoint = ''repos/'' @ to_str (source options) @ ''/labels'', opts = AllPages \<rparr>]"
    and "events (GitHubLabeller e labels options) = []"
    by (simp_all add: GitHubLabeller.simps [of e labels options] Let_def inner)
qed

theorem validation_error_aborts_witness:
  "outcome (GitHubLabeller demo
      [\<lparr> name = Some ''bug'', label = None, color = Some ''#f00'' \<rparr>,
       \<lparr> name = Some ''feat'', label = None, color = Some ''0f0'' \<rparr>,
       \<lparr> name = Some ''docs'', label = None, color = Some ''#'' \<rparr>]
      \<lparr> repo = ''acme/widgets'', source = None, token = ''t'' \<rparr>) =
     Called [Error (MissingColor 2)] \<and>
   requests (GitHubLabeller demo
      [\<lparr> name = Some ''bug'', label = None, color = Some ''#f00'' \<rparr>,
       \<lparr> name = Some ''feat'', label = None, color = Some ''0f0'' \<rparr>,
       \<lparr> name = Some ''docs'', label = None, color = Some ''#'' \<rparr>]
      \<lparr> repo = ''acme/widgets'', source = None, token = ''t'' \<rparr>) = [] \<and>
   events (GitHubLabeller demo
      [\<lparr> name = Some ''bug'', label = None, color = Some ''#f00'' \<rparr>,
       \<lparr> name = Some ''feat'', label = None, color = Some ''0f0'' \<rparr>,
       \<lparr> name = Some ''docs'', label = None, color = Some ''#'' \<rparr>]
      \<lparr> repo = ''acme/widgets'', source = None, token = ''t'' \<rparr>) = [] \<and>
   outcome (GitHubLabeller demo
      [\<lparr> name = Some [], label = None, color = Some ''f00'' \<rparr>]
      \<lparr> repo = ''acme/widgets'', source = Some ''acme/palette'', token = ''t'' \<rparr>) =
     Called [Error (MissingName 0)] \<and>
   requests (GitHubLabeller demo
      [\<lparr> name = Some [], label = None, color = Some ''f00'' \<rparr>]
      \<lparr> repo = ''acme/widgets'', source = Some ''acme/palette'', token = ''t'' \<rparr>) =
     [\<lparr> endpoint = ''repos/acme/palette/labels'', opts = AllPages \<rparr>] \<and>
   events (GitHubLabeller demo
      [\<lparr> name = Some [], label = None, color = Some ''f00'' \<rparr>]
      \<lparr> repo = ''acme/widgets'', source = Some ''acme/palette'', token = ''t'' \<rparr>) = []"
proof -
  let ?xs = "[\<lparr> name = Some ''bug'', label = None, color = Some ''#f00'' \<rparr>,
              \<lparr> name = Some ''feat'', label = None, color = Some ''0f0'' \<rparr>]"
  let ?docs = "\<lparr> name = Some ''docs'', label = None, color = Some ''#'' \<rparr>"
  let ?anon = "\<lparr> name = Some [], label = None, color = Some ''f00'' \<rparr>"
  let ?lbls = "[\<lparr> name = Some ''bug'', label = None, color = Some ''00f'' \<rparr>,
                \<lparr> name = Some ''feat'', label = None, color = Some ''0f0'' \<rparr>]"
  let ?plain = "\<lparr> repo = ''acme/widgets'', source = None, token = ''t'' \<rparr>"
  let ?sourced = "\<lparr> repo = ''acme/widgets'', source = Some ''acme/palette'', token = ''t'' \<rparr>"
  have xs: "list_all valid ?xs" and docs: "\<not> valid ?docs" "color ?docs = Some ''#''"
    and none: "list_all valid []" and anon: "\<not> valid ?anon" "color ?anon = Some ''f00''"
    by (simp_all add: valid_def)
  have ns: "\<not> truthy (source ?plain)" by simp
  have src: "truthy (source ?sourced) \<and>
      listing demo \<lparr> endpoint = ''repos/'' @ to_str (source ?sourced) @ ''/labels'', opts = AllPages \<rparr>
        = Inr ?lbls \<and>
      [?anon] @ ?lbls = [] @ ?anon # ?lbls"
    by (simp add: demo_def demo_listing_def)
  note plain = validation_error_aborts [OF xs docs, where e = demo and ys = "[]",
      THEN conjunct1, THEN mp, OF ns]
  note sourced = validation_error_aborts [OF none anon, where e = demo,
      THEN conjunct2, THEN mp, OF src]
  from plain sourced show ?thesis by simp
qed

text \<open>
  With a source the labels of the source are requested first; the label without a name
  is found only afterwards.
\<close>

theorem validation_after_source_counterexample:
  "requests (GitHubLabeller demo [\<lparr> name = None, label = None, color = Some ''f00'' \<rparr>]
      \<lparr> repo = ''acme/widgets'', source = Some ''acme/palette'', token = ''t'' \<rparr>) =
     [\<lparr> endpoint = ''repos/acme/palette/labels'', opts = AllPages \<rparr>] \<and>
   outcome (GitHubLabeller demo [\<lparr> name = None, label = None, color = Some ''f00'' \<rparr>]
      \<lparr> repo = ''acme/widgets'', source = Some ''acme/palette'', token = ''t'' \<rparr>) =
     Called [Error (MissingName 0)]"
  by code_simp

text \<open>
  A label with no color field at all is not reported through the callback: reading
  \<open>cLabel.color.charAt\<close> raises before the check of line 68 is reached.
\<close>

lemma absent_color_throws:
  "outcome (GitHubLabeller demo [\<lparr> name = Some ''bug'', label = None, color = None \<rparr>]
      \<lparr> repo = ''acme/widgets'', source = None, token = ''t'' \<rparr>) = Thrown TypeError \<and>
   \<not> emitter (GitHubLabeller demo [\<lparr> name = Some ''bug'', label = None, color = None \<rparr>]
      \<lparr> repo = ''acme/widgets'', source = None, token = ''t'' \<rparr>)"
  by code_simp

subsection \<open>Pages\<close>

lemma normalize_labels_Nil: "normalize_labels 0 [] = (None, [])"
  by (simp add: normalize_labels.simps)

lemma hd_requests_checkRepo:
  "hd (requests (checkRepo e owner rep l)) = labels_request owner rep"
  by (simp add: checkRepo_def Let_def labels_request_def collection_endpoint_def split: sum.splits)

text \<open>
  C9. The request by which \<open>checkRepo\<close> fetches the existing labels of a repository
  carries no options, and the known names handed to \<open>addToRepo\<close> are the names in the
  answer to that very request; the fetch of the source's labels and the listing of an
  owner's repositories both carry \<open>{ all: true }\<close>. What the client returns when the
  option is absent is the client's matter.
\<close>

theorem existing_labels_without_all_pages:
  "hd (requests (checkRepo e owner rep l)) =
     \<lparr> endpoint = ''repos/'' @ owner @ ''/'' @ rep @ ''/labels'', opts = NoOpts \<rparr> \<and>
   (listing e \<lparr> endpoint = ''repos/'' @ owner @ ''/'' @ rep @ ''/labels'', opts = NoOpts \<rparr>
      = Inr existing \<longrightarrow>
    called (checkRepo e owner rep l) = called (addToRepo e owner rep l (map name existing)) \<and>
    tl (requests (checkRepo e owner rep l)) =
      requests (addToRepo e owner rep l (map name existing))) \<and>
   (truthy (source options) \<longrightarrow>
    hd (requests (GitHubLabeller e labels options)) =
      \<lparr> endpoint = ''repos/'' @ to_str (source options) @ ''/labels'', opts = AllPages \<rparr>) \<and>
   (\<not> truthy (source options) \<and> labels \<noteq> [] \<and> list_all valid labels \<and>
    (split CHR ''/'' (repo options) = [v, []] \<or>
     length (split CHR ''/'' (repo options)) \<noteq> 2 \<and> v = repo options) \<longrightarrow>
    hd (requests (GitHubLabeller e labels options)) =
      \<lparr> endpoint = ''users/'' @ v @ ''/repos'', opts = AllPages \<rparr>)"
proof (intro conjI impI)
  show "hd (requests (checkRepo e owner rep l)) =
     \<lparr> endpoint = ''repos/'' @ owner @ ''/'' @ rep @ ''/labels'', opts = NoOpts \<rparr>"
    by (simp add: hd_requests_checkRepo labels_request_def collection_endpoint_def)
next
  assume "listing e \<lparr> endpoint = ''repos/'' @ owner @ ''/'' @ rep @ ''/labels'', opts = NoOpts \<rparr>
      = Inr existing"
  then show "called (checkRepo e owner rep l) = called (addToRepo e owner rep l (map name existing))"
    and "tl (requests (checkRepo e owner rep l)) =
      requests (addToRepo e owner rep l (map name existing))"
    by (simp_all add: checkRepo_def Let_def)
next
  assume "truthy (source options)"
  then show "hd (requests (GitHubLabeller e labels options)) =
      \<lparr> endpoint = ''repos/'' @ to_str (source options) @ ''/labels'', opts = AllPages \<rparr>"
    by (simp add: GitHubLabeller.simps [of e labels options] Let_def split: sum.splits)
next
  assume a: "\<not> truthy (source options) \<and> labels \<noteq> [] \<and> list_all valid labels \<and>
    (split CHR ''/'' (repo options) = [v, []] \<or>
     length (split CHR ''/'' (repo options)) \<noteq> 2 \<and> v = repo options)"
  show "hd (requests (GitHubLabeller e labels options)) =
      \<lparr> endpoint = ''users/'' @ v @ ''/repos'', opts = AllPages \<rparr>"
  proof (cases "listing e \<lparr> endpoint = ''users/'' @ v @ ''/repos'', opts = AllPages \<rparr>")
    case (Inl err)
    from a show ?thesis
      by (simp add: GitHubLabeller_owner_failed [of options labels v e err, OF _ _ _ _ Inl])
  next
    case (Inr repos)
    from a show ?thesis
      by (simp add: GitHubLabeller_owner_listed [of options labels v e repos, OF _ _ _ _ Inr])
  qed
qed

theorem existing_labels_without_all_pages_witness:
  "hd (requests (GitHubLabeller demo [\<lparr> name = Some ''bug'', label = None, color = Some ''#f00'' \<rparr>]
      \<lparr> repo = ''acme'', source = Some ''acme/palette'', token = ''t'' \<rparr>)) =
     \<lparr> endpoint = ''repos/acme/palette/labels'', opts = AllPages \<rparr> \<and>
   hd (requests (GitHubLabeller demo [\<lparr> name = Some ''bug'', label = None, color = Some ''#f00'' \<rparr>]
      \<lparr> repo = ''acme'', source = None, token = ''t'' \<rparr>)) =
     \<lparr> endpoint = ''users/acme/repos'', opts = AllPages \<rparr> \<and>
   hd (requests (checkRepo demo ''acme'' ''a''
      (Many [\<lparr> name = Some ''bug'', label = None, color = Some ''f00'' \<rparr>]))) =
     \<lparr> endpoint = ''repos/acme/a/labels'', opts = NoOpts \<rparr> \<and>
   tl (requests (checkRepo demo ''acme'' ''a''
      (Many [\<lparr> name = Some ''bug'', label = None, color = Some ''f00'' \<rparr>]))) =
     requests (addToRepo demo ''acme'' ''a''
      (Many [\<lparr> name = Some ''bug'', label = None, color = Some ''f00'' \<rparr>]) [Some ''bug''])"
proof -
  have l: "listing demo \<lparr> endpoint = ''repos/'' @ ''acme'' @ ''/'' @ ''a'' @ ''/labels'', opts = NoOpts \<rparr>
      = Inr [\<lparr> name = Some ''bug'', label = None, color = Some ''d73a4a'' \<rparr>]"
    by (simp add: demo_def demo_listing_def)
  have ok: "list_all valid [\<lparr> name = Some ''bug'', label = None, color = Some ''#f00'' \<rparr>]"
    and owner: "length (split CHR ''/'' ''acme'') \<noteq> 2"
    by (simp_all add: valid_def)
  from l existing_labels_without_all_pages
    [where e = demo and owner = "''acme''" and rep = "''a''"
       and l = "Many [\<lparr> name = Some ''bug'', label = None, color = Some ''f00'' \<rparr>]"
       and existing = "[\<lparr> name = Some ''bug'', label = None, color = Some ''d73a4a'' \<rparr>]"
       and options = "\<lparr> repo = ''acme'', source = Some ''acme/palette'', token = ''t'' \<rparr>"
       and labels = "[\<lparr> name = Some ''bug'', label = None, color = Some ''#f00'' \<rparr>]"]
  have a: "hd (requests (GitHubLabeller demo [\<lparr> name = Some ''bug'', label = None, color = Some ''#f00'' \<rparr>]
      \<lparr> repo = ''acme'', source = Some ''acme/palette'', token = ''t'' \<rparr>)) =
     \<lparr> endpoint = ''repos/acme/palette/labels'', opts = AllPages \<rparr> \<and>
   hd (requests (checkRepo demo ''acme'' ''a''
      (Many [\<lparr> name = Some ''bug'', label = None, color = Some ''f00'' \<rparr>]))) =
     \<lparr> endpoint = ''repos/acme/a/labels'', opts = NoOpts \<rparr> \<and>
   tl (requests (checkRepo demo ''acme'' ''a''
      (Many [\<lparr> name = Some ''bug'', label = None, color = Some ''f00'' \<rparr>]))) =
     requests (addToRepo demo ''acme'' ''a''
      (Many [\<lparr> name = Some ''bug'', label = None, color = Some ''f00'' \<rparr>]) [Some ''bug''])"
    by auto
  from ok owner existing_labels_without_all_pages
    [where e = demo and v = "''acme''"
       and options = "\<lparr> repo = ''acme'', source = None, token = ''t'' \<rparr>"
       and labels = "[\<lparr> name = Some ''bug'', label = None, color = Some ''#f00'' \<rparr>]"]
  have b: "hd (requests (GitHubLabeller demo [\<lparr> name = Some ''bug'', label = None, color = Some ''#f00'' \<rparr>]
      \<lparr> repo = ''acme'', source = None, token = ''t'' \<rparr>)) =
     \<lparr> endpoint = ''users/acme/repos'', opts = AllPages \<rparr>"
    by auto
  from a b show ?thesis by blast
qed

subsection \<open>What a run does to its arguments\<close>

lemma no_source_frame:
  assumes "\<not> truthy (source options)"
  shows "options_after (GitHubLabeller e labels options) = options \<and>
         labels_after (GitHubLabeller e labels options) = snd (normalize_labels 0 labels)"
  using assms
  by (simp add: GitHubLabeller.simps [of e labels options] normalize_labels_Nil Let_def of_task_def
      split: prod.splits option.splits stop.splits sum.splits)

lemma label_normal: "valid c \<Longrightarrow> label (normal c) = None"
  by (cases "color c") (simp_all add: valid_def normal_def normalize_label_def)

text \<open>
  C10, as the code has it. Without a source, a call overwrites in the array it was
  passed every element the loop visits by a new object of two fields: all of them when
  the labels pass; otherwise those before the first that fails and that one too, unless
  it has no color field and the exception comes before the assignment; the elements
  after it stay as they were passed, and so do the options. With a source, the array
  that was passed stays as it was passed, the merged labels going to the inner call as
  a new array (\<open>concat\<close>); \<open>source\<close> is deleted from the options object that was
  passed when the labels of the source could be fetched, and the options stay as they
  were when the fetch fails. In every case \<open>repo\<close> and \<open>token\<close> keep their values.
\<close>

theorem arguments_mutated_in_place:
  "(\<not> truthy (source options) \<and> list_all valid labels \<longrightarrow>
      labels_after (GitHubLabeller e labels options) = map normal labels \<and>
      list_all (\<lambda>c. label c = None) (labels_after (GitHubLabeller e labels options)) \<and>
      options_after (GitHubLabeller e labels options) = options) \<and>
   (\<not> truthy (source options) \<and> list_all valid xs \<and> \<not> valid c \<longrightarrow>
      labels_after (GitHubLabeller e (xs @ c # ys) options) = map normal xs @ normal c # ys \<and>
      options_after (GitHubLabeller e (xs @ c # ys) options) = options) \<and>
   (truthy (source options) \<and>
    listing e \<lparr> endpoint = ''repos/'' @ to_str (source options) @ ''/labels'', opts = AllPages \<rparr>
      = Inr lbls \<longrightarrow>
      options_after (GitHubLabeller e labels options) = options \<lparr> source := None \<rparr> \<and>
      labels_after (GitHubLabeller e labels options) = labels) \<and>
   (truthy (source options) \<and>
    listing e \<lparr> endpoint = ''repos/'' @ to_str (source options) @ ''/labels'', opts = AllPages \<rparr>
      = Inl err \<longrightarrow>
      options_after (GitHubLabeller e labels options) = options \<and>
      labels_after (GitHubLabeller e labels options) = labels) \<and>
   repo (options_after (GitHubLabeller e labels options)) = repo options \<and>
   token (options_after (GitHubLabeller e labels options)) = token options"
proof -
  have inner: "options_after (GitHubLabeller e ls (options \<lparr> source := None \<rparr>)) =
      options \<lparr> source := None \<rparr>" for ls
    using no_source_frame [of "options \<lparr> source := None \<rparr>" e ls] by simp
  have valid_case: "labels_after (GitHubLabeller e labels options) = map normal labels \<and>
      list_all (\<lambda>c. label c = None) (labels_after (GitHubLabeller e labels options)) \<and>
      options_after (GitHubLabeller e labels options) = options"
    if "\<not> truthy (source options)" and "list_all valid labels"
    using that no_source_frame [of options e labels]
    by (simp add: normalize_labels_valid list_all_iff label_normal)
  have fail_case: "labels_after (GitHubLabeller e (xs @ c # ys) options) =
        map normal xs @ normal c # ys \<and>
      options_after (GitHubLabeller e (xs @ c # ys) options) = options"
    if "\<not> truthy (source options)" and "list_all valid xs" and "\<not> valid c"
    using that no_source_frame [of options e "xs @ c # ys"]
    by (cases "color c") (auto simp: normalize_labels_fail normalize_labels_throw normal_def)
  have listed: "options_after (GitHubLabeller e labels options) = options \<lparr> source := None \<rparr> \<and>
      labels_after (GitHubLabeller e labels options) = labels"
    if "truthy (source options)"
      and "listing e \<lparr> endpoint = ''repos/'' @ to_str (source options) @ ''/labels'', opts = AllPages \<rparr>
        = Inr lbls"
    using that by (simp add: GitHubLabeller.simps [of e labels options] Let_def inner)
  have failed: "options_after (GitHubLabeller e labels options) = options \<and>
      labels_after (GitHubLabeller e labels options) = labels"
    if "truthy (source options)"
      and "listing e \<lparr> endpoint = ''repos/'' @ to_str (source options) @ ''/labels'', opts = AllPages \<rparr>
        = Inl err"
    using that by (simp add: GitHubLabeller.simps [of e labels options] Let_def)
  have frame: "repo (options_after (GitHubLabeller e labels options)) = repo options \<and>
      token (options_after (GitHubLabeller e labels options)) = token options"
  proof (cases "truthy (source options)")
    case False
    then show ?thesis by (simp add: no_source_frame)
  next
    case True
    then show ?thesis
      by (cases "listing e \<lparr> endpoint = ''repos/'' @ to_str (source options) @ ''/labels'',
            opts = AllPages \<rparr>")
        (simp_all add: GitHubLabeller.simps [of e labels options] Let_def inner)
  qed
  from valid_case fail_case listed failed frame show ?thesis by blast
qed

theorem arguments_mutated_in_place_witness:
  "labels_after (GitHubLabeller demo
      [\<lparr> name = None, label = Some ''bug'', color = Some ''#f00'' \<rparr>]
      \<lparr> repo = ''acme/widgets'', source = None, token = ''t'' \<rparr>) =
     [\<lparr> name = Some ''bug'', label = None, color = Some ''f00'' \<rparr>] \<and>
   labels_after (GitHubLabeller demo
      ([\<lparr> name = None, label = Some ''bug'', color = Some ''#f00'' \<rparr>] @
        \<lparr> name = Some '''', label = None, color = Some ''#0f0'' \<rparr> #
       [\<lparr> name = Some ''docs'', label = None, color = Some ''#00f'' \<rparr>])
      \<lparr> repo = ''acme/widgets'', source = None, token = ''t'' \<rparr>) =
     [\<lparr> name = Some ''bug'', label = None, color = Some ''f00'' \<rparr>,
      \<lparr> name = None, label = None, color = Some ''0f0'' \<rparr>,
      \<lparr> name = Some ''docs'', label = None, color = Some ''#00f'' \<rparr>] \<and>
   options_after (GitHubLabeller demo
      [\<lparr> name = None, label = Some ''bug'', color = Some ''#f00'' \<rparr>]
      \<lparr> repo = ''acme/widgets'', source = Some ''acme/palette'', token = ''t'' \<rparr>) =
     \<lparr> repo = ''acme/widgets'', source = None, token = ''t'' \<rparr> \<and>
   options_after (GitHubLabeller demo
      [\<lparr> name = None, label = Some ''bug'', color = Some ''#f00'' \<rparr>]
      \<lparr> repo = ''acme/widgets'', source = Some ''acme/nowhere'', token = ''t'' \<rparr>) =
     \<lparr> repo = ''acme/widgets'', source = Some ''acme/nowhere'', token = ''t'' \<rparr>"
proof -
  have ok: "list_all valid [\<lparr> name = None, label = Some ''bug'', color = Some ''#f00'' \<rparr>]"
    and bad: "\<not> valid \<lparr> name = Some '''', label = None, color = Some ''#0f0'' \<rparr>"
    and listed: "listing demo \<lparr> endpoint = ''repos/'' @ to_str (Some ''acme/palette'') @ ''/labels'',
        opts = AllPages \<rparr> =
      Inr [\<lparr> name = Some ''bug'', label = None, color = Some ''00f'' \<rparr>,
           \<lparr> name = Some ''feat'', label = None, color = Some ''0f0'' \<rparr>]"
    and failed: "listing demo \<lparr> endpoint = ''repos/'' @ to_str (Some ''acme/nowhere'') @ ''/labels'',
        opts = AllPages \<rparr> = Inl (Remote ''Not Found'')"
    by (simp_all add: valid_def demo_def demo_listing_def)
  from ok arguments_mutated_in_place
    [where e = demo and labels = "[\<lparr> name = None, label = Some ''bug'', color = Some ''#f00'' \<rparr>]"
       and options = "\<lparr> repo = ''acme/widgets'', source = None, token = ''t'' \<rparr>"]
  have a: "labels_after (GitHubLabeller demo
      [\<lparr> name = None, label = Some ''bug'', color = Some ''#f00'' \<rparr>]
      \<lparr> repo = ''acme/widgets'', source = None, token = ''t'' \<rparr>) =
     [\<lparr> name = Some ''bug'', label = None, color = Some ''f00'' \<rparr>]"
    by (auto simp: normal_def normalize_label_def)
  from ok bad arguments_mutated_in_place
    [where e = demo and xs = "[\<lparr> name = None, label = Some ''bug'', color = Some ''#f00'' \<rparr>]"
       and c = "\<lparr> name = Some '''', label = None, color = Some ''#0f0'' \<rparr>"
       and ys = "[\<lparr> name = Some ''docs'', label = None, color = Some ''#00f'' \<rparr>]"
       and options = "\<lparr> repo = ''acme/widgets'', source = None, token = ''t'' \<rparr>"]
  have b: "labels_after (GitHubLabeller demo
      ([\<lparr> name = None, label = Some ''bug'', color = Some ''#f00'' \<rparr>] @
        \<lparr> name = Some '''', label = None, color = Some ''#0f0'' \<rparr> #
       [\<lparr> name = Some ''docs'', label = None, color = Some ''#00f'' \<rparr>])
      \<lparr> repo = ''acme/widgets'', source = None, token = ''t'' \<rparr>) =
     [\<lparr> name = Some ''bug'', label = None, color = Some ''f00'' \<rparr>,
      \<lparr> name = None, label = None, color = Some ''0f0'' \<rparr>,
      \<lparr> name = Some ''docs'', label = None, color = Some ''#00f'' \<rparr>]"
    by (auto simp: normal_def normalize_label_def)
  from listed arguments_mutated_in_place
    [where e = demo and labels = "[\<lparr> name = None, label = Some ''bug'', color = Some ''#f00'' \<rparr>]"
       and options = "\<lparr> repo = ''acme/widgets'', source = Some ''acme/palette'', token = ''t'' \<rparr>"
       and lbls = "[\<lparr> name = Some ''bug'', label = None, color = Some ''00f'' \<rparr>,
           \<lparr> name = Some ''feat'', label = None, color = Some ''0f0'' \<rparr>]"]
  have c: "options_after (GitHubLabeller demo
      [\<lparr> name = None, label = Some ''bug'', color = Some ''#f00'' \<rparr>]
      \<lparr> repo = ''acme/widgets'', source = Some ''acme/palette'', token = ''t'' \<rparr>) =
     \<lparr> repo = ''acme/widgets'', source = None, token = ''t'' \<rparr>"
    by auto
  from failed arguments_mutated_in_place
    [where e = demo and labels = "[\<lparr> name = None, label = Some ''bug'', color = Some ''#f00'' \<rparr>]"
       and options = "\<lparr> repo = ''acme/widgets'', source = Some ''acme/nowhere'', token = ''t'' \<rparr>"
       and err = "Remote ''Not Found''"]
  have d: "options_after (GitHubLabeller demo
      [\<lparr> name = None, label = Some ''bug'', color = Some ''#f00'' \<rparr>]
      \<lparr> repo = ''acme/widgets'', source = Some ''acme/nowhere'', token = ''t'' \<rparr>) =
     \<lparr> repo = ''acme/widgets'', source = Some ''acme/nowhere'', token = ''t'' \<rparr>"
    by auto
  from a b c d show ?thesis by blast
qed

text \<open>
  With a source, the array the caller passed is not normalised; without one, the
  elements after the first label that fails are not overwritten.
\<close>

theorem passed_array_not_overwritten_counterexample:
  "labels_after (GitHubLabeller demo
      [\<lparr> name = Some ''bug'', label = None, color = Some ''#f00'' \<rparr>]
      \<lparr> repo = ''acme/widgets'', source = Some ''acme/palette'', token = ''t'' \<rparr>) =
     [\<lparr> name = Some ''bug'', label = None, color = Some ''#f00'' \<rparr>] \<and>
   labels_after (GitHubLabeller demo
      [\<lparr> name = None, label = None, color = Some ''#0f0'' \<rparr>,
       \<lparr> name = Some ''docs'', label = Some ''d'', color = Some ''#00f'' \<rparr>]
      \<lparr> repo = ''acme/widgets'', source = None, token = ''t'' \<rparr>) =
     [\<lparr> name = None, label = None, color = Some ''0f0'' \<rparr>,
      \<lparr> name = Some ''docs'', label = Some ''d'', color = Some ''#00f'' \<rparr>]"
  by code_simp

subsection \<open>Writing the labels of one repository\<close>

text \<open>
  C3, as the code has it. Given an array, \<open>addToRepo\<close> writes every label, one request
  each and whatever the answers to the others are; each write emits exactly one
  \<open>"added"\<close> event with the owner, the repository, the label and the error and the data
  of its own reply, the error being \<open>null\<close> when the write succeeded; and each task
  reports \<open>done(null, data)\<close>, so the callback of the repository gets the join of the
  data alone: the error of a write is in the event and not in the aggregated result.
\<close>

theorem addToRepo_array:
  "requests (addToRepo e owner rep (Many ls) known) = map (upsert_request owner rep known) ls \<and>
   events (addToRepo e owner rep (Many ls) known) =
     map (\<lambda>c. \<lparr> e_owner = owner, e_repo = rep, e_label = c,
                  e_err = (case fst (writing e (upsert_request owner rep known c)) of
                             None \<Rightarrow> Null | Some x \<Rightarrow> Error x),
                  e_data = snd (writing e (upsert_request owner rep known c)) \<rparr>) ls \<and>
   called (addToRepo e owner rep (Many ls) known) =
     join e (map (\<lambda>c. [Null, snd (writing e (upsert_request owner rep known c))]) ls)"
  by (simp add: addToRepo_Many added_def err_val_def)

text \<open>
  The write of \<open>wontfix\<close> is refused: the event carries the error, the callback gets
  \<open>null\<close> and an array whose slot holds the data of the refused write.
\<close>

theorem write_error_not_aggregated_counterexample:
  "events (GitHubLabeller demo [\<lparr> name = Some ''wontfix'', label = None, color = Some ''fff'' \<rparr>]
      \<lparr> repo = ''acme/widgets'', source = None, token = ''t'' \<rparr>) =
     [\<lparr> e_owner = ''acme'', e_repo = ''widgets'',
        e_label = \<lparr> name = Some ''wontfix'', label = None, color = Some ''fff'' \<rparr>,
        e_err = Error (Remote ''Validation Failed''), e_data = Undefined \<rparr>] \<and>
   outcome (GitHubLabeller demo [\<lparr> name = Some ''wontfix'', label = None, color = Some ''fff'' \<rparr>]
      \<lparr> repo = ''acme/widgets'', source = None, token = ''t'' \<rparr>) =
     Called [Null, Array [Undefined]]"
  by code_simp

subsection \<open>Create or update\<close>

lemma requests_checkRepo_Data:
  assumes "q \<in> set (requests (checkRepo e owner rep (Many ls)))" and "opts q = Data c"
  shows "(\<exists>existing. listing e (labels_request owner rep) = Inr existing \<and>
            q = upsert_request owner rep (map name existing) c) \<and> c \<in> set ls"
  using assms
  by (auto simp: checkRepo_Many labels_request_def upsert_request_def split: sum.splits)

lemma valid_normal: "valid c \<Longrightarrow> label (normal c) = None \<and> truthy (name (normal c)) \<and>
    truthy (color (normal c))"
  by (cases "color c") (auto simp: valid_def normal_def normalize_label_def)


lemma first_invalid:
  assumes "\<not> list_all valid ls"
  obtains xs c ys where "ls = xs @ c # ys" and "list_all valid xs" and "\<not> valid c"
proof -
  from assms have "\<exists>x \<in> set ls. \<not> valid x" by (simp add: list_all_iff)
  then obtain xs c ys where "ls = xs @ c # ys" and "\<not> valid c" and "\<forall>x \<in> set xs. valid x"
    by (auto dest!: split_list_first_prop)
  then show ?thesis using that by (simp add: list_all_iff)
qed

lemma requests_invalid:
  assumes "\<not> truthy (source options)" and "\<not> list_all valid labels"
  shows "requests (GitHubLabeller e labels options) = [] \<and>
         events (GitHubLabeller e labels options) = []"
proof -
  from assms(2) obtain xs c ys where ls: "labels = xs @ c # ys"
    and xs: "list_all valid xs" and c: "\<not> valid c"
    by (rule first_invalid)
  show ?thesis
  proof (cases "color c")
    case None
    show ?thesis unfolding ls by (simp add: GitHubLabeller_throws [OF assms(1) xs None])
  next
    case (Some col)
    show ?thesis unfolding ls by (simp add: GitHubLabeller_invalid [OF assms(1) xs c Some])
  qed
qed

lemma two_segments: "length (s :: 'a list) = 2 \<Longrightarrow> s = [s ! 0, s ! 1]"
  by (cases s; cases "tl s") auto

lemma no_source_requests_routed:
  assumes ns: "\<not> truthy (source options)"
    and q: "q \<in> set (requests (GitHubLabeller e labels options))" and d: "opts q = Data c"
  shows "(\<exists>owner rep existing. listing e (labels_request owner rep) = Inr existing \<and>
            q = upsert_request owner rep (map name existing) c) \<and>
         (\<exists>c0. valid c0 \<and> c = normal c0)"
proof (cases "list_all valid labels")
  case False
  with ns q show ?thesis by (simp add: requests_invalid)
next
  case ok: True
  have ne: "labels \<noteq> []"
    using q ns by (auto simp: GitHubLabeller.simps [of e "[]" options])
  let ?s = "split CHR ''/'' (repo options)"
  have norm: "\<exists>c0. valid c0 \<and> c = normal c0" if "c \<in> set (map normal labels)"
    using that ok by (auto simp: list_all_iff)
  show ?thesis
  proof (cases "length ?s = 2 \<and> ?s ! 1 \<noteq> []")
    case True
    then have s: "?s = [?s ! 0, ?s ! 1]" and r: "?s ! 1 \<noteq> []"
      by (blast intro: two_segments)+
    from q have "q \<in> set (requests (checkRepo e (?s ! 0) (?s ! 1) (Many (map normal labels))))"
      by (simp add: GitHubLabeller_explicit [OF ns ne ok s r])
    from requests_checkRepo_Data [OF this d] norm show ?thesis by blast
  next
    case False
    define v where "v = (if length ?s = 2 then ?s ! 0 else repo options)"
    from False have own: "?s = [v, []] \<or> length ?s \<noteq> 2 \<and> v = repo options"
      using two_segments [of ?s] by (auto simp: v_def)
    show ?thesis
    proof (cases "listing e \<lparr> endpoint = ''users/'' @ v @ ''/repos'', opts = AllPages \<rparr>")
      case (Inl err)
      from q d show ?thesis
        by (auto simp: GitHubLabeller_owner_failed [OF ns ne ok own Inl])
    next
      case (Inr repos)
      from q d obtain x :: obj where
        "q \<in> set (requests (checkRepo e v (to_str (name x)) (Many (map normal labels))))"
        by (auto simp: GitHubLabeller_owner_listed [OF ns ne ok own Inr])
      from requests_checkRepo_Data [OF this d] norm show ?thesis by blast
    qed
  qed
qed

lemma requests_routed:
  assumes q: "q \<in> set (requests (GitHubLabeller e labels options))" and d: "opts q = Data c"
  shows "(\<exists>owner rep existing. listing e (labels_request owner rep) = Inr existing \<and>
            q = upsert_request owner rep (map name existing) c) \<and>
         (\<exists>c0. valid c0 \<and> c = normal c0)"
proof (cases "truthy (source options)")
  case False
  from no_source_requests_routed [OF False q d] show ?thesis .
next
  case True
  let ?req = "\<lparr> endpoint = ''repos/'' @ to_str (source options) @ ''/labels'', opts = AllPages \<rparr>"
  show ?thesis
  proof (cases "listing e ?req")
    case (Inl err)
    with True q d show ?thesis
      by (auto simp: GitHubLabeller.simps [of e labels options] Let_def)
  next
    case (Inr lbls)
    with True q d
    have "q \<in> set (requests (GitHubLabeller e (labels @ lbls) (options \<lparr> source := None \<rparr>)))"
      by (auto simp: GitHubLabeller.simps [of e labels options] Let_def)
    from no_source_requests_routed [OF _ this d] show ?thesis by simp
  qed
qed

text \<open>
  The routing of a write. The single-label form of \<open>addToRepo\<close> issues one request,
  carrying the label as its data: to the label's own resource, the name URL-encoded,
  when the name is among the known names, and to the collection otherwise. \<open>checkRepo\<close>
  takes the known names from the listing of the repository and issues that request for
  every label. In a whole run, whatever the target and the source, every write request
  is of this form for some repository whose labels were listed, and its data is the
  normalised form of a label that passed the checks: an object of a truthy name and a
  truthy color. On a repository whose listing, as \<open>checkRepo\<close> requests it, has the
  names of all the labels, every write is an update.
\<close>

theorem create_or_update:
  "requests (addToRepo e owner rep (One c) known) = [upsert_request owner rep known c] \<and>
   (name c \<in> set known \<longrightarrow>
      upsert_request owner rep known c =
        \<lparr> endpoint = ''repos/'' @ owner @ ''/'' @ rep @ ''/labels/'' @
                       encodeURIComponent (to_str (name c)),
          opts = Data c \<rparr>) \<and>
   (name c \<notin> set known \<longrightarrow>
      upsert_request owner rep known c =
        \<lparr> endpoint = ''repos/'' @ owner @ ''/'' @ rep @ ''/labels'', opts = Data c \<rparr>) \<and>
   (listing e (labels_request owner rep) = Inr existing \<longrightarrow>
      requests (checkRepo e owner rep (Many ls)) =
        labels_request owner rep # map (upsert_request owner rep (map name existing)) ls) \<and>
   (listing e (labels_request owner rep) = Inr existing \<and>
    list_all (\<lambda>c. name c \<in> set (map name existing)) ls \<longrightarrow>
      map endpoint (requests (checkRepo e owner rep (Many ls))) =
        (''repos/'' @ owner @ ''/'' @ rep @ ''/labels'') #
        map (\<lambda>c. ''repos/'' @ owner @ ''/'' @ rep @ ''/labels/'' @
                   encodeURIComponent (to_str (name c))) ls) \<and>
   (\<forall>q d. q \<in> set (requests (GitHubLabeller e labels options)) \<and> opts q = Data d \<longrightarrow>
      (\<exists>owner rep existing. listing e (labels_request owner rep) = Inr existing \<and>
         q = upsert_request owner rep (map name existing) d) \<and>
      (\<exists>c0. valid c0 \<and> d = normal c0) \<and>
      label d = None \<and> truthy (name d) \<and> truthy (color d))"
proof (intro conjI impI allI)
  show "requests (addToRepo e owner rep (One c) known) = [upsert_request owner rep known c]"
    by (simp add: addToRepo_One)
  show "upsert_request owner rep known c =
        \<lparr> endpoint = ''repos/'' @ owner @ ''/'' @ rep @ ''/labels/'' @
                       encodeURIComponent (to_str (name c)),
          opts = Data c \<rparr>" if "name c \<in> set known"
    using that by (simp add: upsert_request_def collection_endpoint_def)
  show "upsert_request owner rep known c =
        \<lparr> endpoint = ''repos/'' @ owner @ ''/'' @ rep @ ''/labels'', opts = Data c \<rparr>"
    if "name c \<notin> set known"
    using that by (simp add: upsert_request_def collection_endpoint_def)
  show "requests (checkRepo e owner rep (Many ls)) =
        labels_request owner rep # map (upsert_request owner rep (map name existing)) ls"
    if "listing e (labels_request owner rep) = Inr existing"
    using that by (simp add: checkRepo_Many)
  show "map endpoint (requests (checkRepo e owner rep (Many ls))) =
        (''repos/'' @ owner @ ''/'' @ rep @ ''/labels'') #
        map (\<lambda>c. ''repos/'' @ owner @ ''/'' @ rep @ ''/labels/'' @
                   encodeURIComponent (to_str (name c))) ls"
    if "listing e (labels_request owner rep) = Inr existing \<and>
        list_all (\<lambda>c. name c \<in> set (map name existing)) ls"
    using that
    by (simp add: checkRepo_Many upsert_request_def labels_request_def collection_endpoint_def
        list_all_iff)
  fix q d
  assume a: "q \<in> set (requests (GitHubLabeller e labels options)) \<and> opts q = Data d"
  then have q: "q \<in> set (requests (GitHubLabeller e labels options))" and d: "opts q = Data d"
    by simp_all
  from requests_routed [OF q d] obtain c0
    where routed: "\<exists>owner rep existing. listing e (labels_request owner rep) = Inr existing \<and>
         q = upsert_request owner rep (map name existing) d"
      and c0: "valid c0" "d = normal c0"
    by blast
  from valid_normal [OF c0(1)] c0(2)
  have fields: "label d = None" "truthy (name d)" "truthy (color d)"
    by simp_all
  from routed show "\<exists>owner rep existing. listing e (labels_request owner rep) = Inr existing \<and>
         q = upsert_request owner rep (map name existing) d" .
  from c0 show "\<exists>c0. valid c0 \<and> d = normal c0" by blast
  from fields show "label d = None" and "truthy (name d)" and "truthy (color d)" by simp_all
qed


theorem create_or_update_witness:
  "requests (addToRepo demo ''acme'' ''widgets''
      (One \<lparr> name = Some ''help wanted'', label = None, color = Some ''f00'' \<rparr>)
      [Some ''bug'', Some ''help wanted'']) =
     [\<lparr> endpoint = ''repos/acme/widgets/labels/help%20wanted'',
        opts = Data \<lparr> name = Some ''help wanted'', label = None, color = Some ''f00'' \<rparr> \<rparr>] \<and>
   requests (addToRepo demo ''acme'' ''widgets''
      (One \<lparr> name = Some ''feat'', label = None, color = Some ''0f0'' \<rparr>)
      [Some ''bug'', Some ''help wanted'']) =
     [\<lparr> endpoint = ''repos/acme/widgets/labels'',
        opts = Data \<lparr> name = Some ''feat'', label = None, color = Some ''0f0'' \<rparr> \<rparr>] \<and>
   requests (checkRepo demo ''acme'' ''widgets''
      (Many [\<lparr> name = Some ''help wanted'', label = None, color = Some ''f00'' \<rparr>,
             \<lparr> name = Some ''feat'', label = None, color = Some ''0f0'' \<rparr>])) =
     [\<lparr> endpoint = ''repos/acme/widgets/labels'', opts = NoOpts \<rparr>,
      \<lparr> endpoint = ''repos/acme/widgets/labels/help%20wanted'',
        opts = Data \<lparr> name = Some ''help wanted'', label = None, color = Some ''f00'' \<rparr> \<rparr>,
      \<lparr> endpoint = ''repos/acme/widgets/labels'',
        opts = Data \<lparr> name = Some ''feat'', label = None, color = Some ''0f0'' \<rparr> \<rparr>] \<and>
   map endpoint (requests (checkRepo demo ''acme'' ''widgets''
      (Many [\<lparr> name = Some ''help wanted'', label = None, color = Some ''f00'' \<rparr>,
             \<lparr> name = Some ''bug'', label = None, color = Some ''f00'' \<rparr>]))) =
     [''repos/acme/widgets/labels'', ''repos/acme/widgets/labels/help%20wanted'',
      ''repos/acme/widgets/labels/bug''] \<and>
   (\<exists>owner rep existing. listing demo (labels_request owner rep) = Inr existing \<and>
      \<lparr> endpoint = ''repos/acme/a/labels/bug'',
        opts = Data \<lparr> name = Some ''bug'', label = None, color = Some ''f00'' \<rparr> \<rparr> =
      upsert_request owner rep (map name existing)
        \<lparr> name = Some ''bug'', label = None, color = Some ''f00'' \<rparr>)"
proof -
  let ?hw = "\<lparr> name = Some ''help wanted'', label = None, color = Some ''f00'' \<rparr>"
  let ?feat = "\<lparr> name = Some ''feat'', label = None, color = Some ''0f0'' \<rparr>"
  let ?bug = "\<lparr> name = Some ''bug'', label = None, color = Some ''f00'' \<rparr>"
  let ?existing = "[\<lparr> name = Some ''bug'', label = None, color = Some ''d73a4a'' \<rparr>,
      \<lparr> name = Some ''help wanted'', label = None, color = Some ''008672'' \<rparr>]"
  have enc: "encodeURIComponent ''help wanted'' = ''help%20wanted''"
    by (simp add: encodeURIComponent_def unreserved_def hex_digit_def)
  have l: "listing demo (labels_request ''acme'' ''widgets'') = Inr ?existing"
    by (simp add: demo_def demo_listing_def labels_request_def collection_endpoint_def)
  have m: "\<lparr> endpoint = ''repos/acme/a/labels/bug'', opts = Data ?bug \<rparr>
      \<in> set (requests (GitHubLabeller demo
            [\<lparr> name = Some ''bug'', label = None, color = Some ''#f00'' \<rparr>]
            \<lparr> repo = ''acme'', source = None, token = ''t'' \<rparr>)) \<and>
      opts \<lparr> endpoint = ''repos/acme/a/labels/bug'', opts = Data ?bug \<rparr> = Data ?bug"
    by code_simp
  have a: "requests (addToRepo demo ''acme'' ''widgets'' (One ?hw) [Some ''bug'', Some ''help wanted'']) =
     [\<lparr> endpoint = ''repos/acme/widgets/labels/help%20wanted'', opts = Data ?hw \<rparr>]"
    using create_or_update [where e = demo and owner = "''acme''" and rep = "''widgets''"
        and c = ?hw and known = "[Some ''bug'', Some ''help wanted'']"] enc
    by simp
  have b: "requests (addToRepo demo ''acme'' ''widgets'' (One ?feat) [Some ''bug'', Some ''help wanted'']) =
     [\<lparr> endpoint = ''repos/acme/widgets/labels'', opts = Data ?feat \<rparr>]"
    using create_or_update [where e = demo and owner = "''acme''" and rep = "''widgets''"
        and c = ?feat and known = "[Some ''bug'', Some ''help wanted'']"]
    by simp
  have c: "requests (checkRepo demo ''acme'' ''widgets'' (Many [?hw, ?feat])) =
     [\<lparr> endpoint = ''repos/acme/widgets/labels'', opts = NoOpts \<rparr>,
      \<lparr> endpoint = ''repos/acme/widgets/labels/help%20wanted'', opts = Data ?hw \<rparr>,
      \<lparr> endpoint = ''repos/acme/widgets/labels'', opts = Data ?feat \<rparr>]"
    using l create_or_update [where e = demo and owner = "''acme''" and rep = "''widgets''"
        and existing = ?existing and ls = "[?hw, ?feat]"] enc
    by (simp add: labels_request_def upsert_request_def collection_endpoint_def)
  have d: "\<exists>owner rep existing. listing demo (labels_request owner rep) = Inr existing \<and>
      \<lparr> endpoint = ''repos/acme/a/labels/bug'', opts = Data ?bug \<rparr> =
      upsert_request owner rep (map name existing) ?bug"
    using create_or_update [where e = demo
        and labels = "[\<lparr> name = Some ''bug'', label = None, color = Some ''#f00'' \<rparr>]"
        and options = "\<lparr> repo = ''acme'', source = None, token = ''t'' \<rparr>",
        THEN conjunct2, THEN conjunct2, THEN conjunct2, THEN conjunct2, THEN conjunct2,
        rule_format, OF m]
    by (rule conjunct1)
  have enc': "encodeURIComponent ''bug'' = ''bug''"
    by (simp add: encodeURIComponent_def unreserved_def)
  have all_known: "listing demo (labels_request ''acme'' ''widgets'') = Inr ?existing \<and>
      list_all (\<lambda>c. name c \<in> set (map name ?existing)) [?hw, ?bug]"
    using l by simp
  have c': "map endpoint (requests (checkRepo demo ''acme'' ''widgets'' (Many [?hw, ?bug]))) =
     [''repos/acme/widgets/labels'', ''repos/acme/widgets/labels/help%20wanted'',
      ''repos/acme/widgets/labels/bug'']"
    using create_or_update [where e = demo and owner = "''acme''" and rep = "''widgets''"
        and existing = ?existing and ls = "[?hw, ?bug]",
        THEN conjunct2, THEN conjunct2, THEN conjunct2, THEN conjunct2, THEN conjunct1,
        rule_format, OF all_known] enc enc'
    by simp
  from a b c c' d show ?thesis by blast
qed

subsection \<open>Running again\<close>

text \<open>
  C1, where the code departs from it. The routing above makes a second run update what
  a first run created only as far as the listing of \<open>checkRepo\<close> shows it. That
  listing is requested without \<open>{ all: true }\<close>, which the two other listings of the
  program carry, so a label that the repository holds beyond the first page is not
  among the known names. On a repository that holds \<open>bug\<close> and \<open>feat\<close>, with pages of
  two, a first run creates \<open>zed\<close>. The repository then holds three labels, as its
  listing with all pages shows; the same run again lists the first page, does not find
  \<open>zed\<close> and sends it to the collection a second time, which the service refuses.
\<close>

theorem rerun_creates_again:
  "requests (GitHubLabeller
      (paged [\<lparr> name = Some ''bug'', label = None, color = Some ''d73a4a'' \<rparr>,
              \<lparr> name = Some ''feat'', label = None, color = Some ''0f0'' \<rparr>])
      [\<lparr> name = Some ''zed'', label = None, color = Some ''#fff'' \<rparr>]
      \<lparr> repo = ''acme/big'', source = None, token = ''t'' \<rparr>) =
     [\<lparr> endpoint = ''repos/acme/big/labels'', opts = NoOpts \<rparr>,
      \<lparr> endpoint = ''repos/acme/big/labels'',
        opts = Data \<lparr> name = Some ''zed'', label = None, color = Some ''fff'' \<rparr> \<rparr>] \<and>
   map e_err (events (GitHubLabeller
      (paged [\<lparr> name = Some ''bug'', label = None, color = Some ''d73a4a'' \<rparr>,
              \<lparr> name = Some ''feat'', label = None, color = Some ''0f0'' \<rparr>])
      [\<lparr> name = Some ''zed'', label = None, color = Some ''#fff'' \<rparr>]
      \<lparr> repo = ''acme/big'', source = None, token = ''t'' \<rparr>)) = [Null] \<and>
   listing
      (paged [\<lparr> name = Some ''bug'', label = None, color = Some ''d73a4a'' \<rparr>,
              \<lparr> name = Some ''feat'', label = None, color = Some ''0f0'' \<rparr>,
              \<lparr> name = Some ''zed'', label = None, color = Some ''fff'' \<rparr>])
      \<lparr> endpoint = ''repos/acme/big/labels'', opts = AllPages \<rparr> =
     Inr [\<lparr> name = Some ''bug'', label = None, color = Some ''d73a4a'' \<rparr>,
          \<lparr> name = Some ''feat'', label = None, color = Some ''0f0'' \<rparr>,
          \<lparr> name = Some ''zed'', label = None, color = Some ''fff'' \<rparr>] \<and>
   requests (GitHubLabeller
      (paged [\<lparr> name = Some ''bug'', label = None, color = Some ''d73a4a'' \<rparr>,
              \<lparr> name = Some ''feat'', label = None, color = Some ''0f0'' \<rparr>,
              \<lparr> name = Some ''zed'', label = None, color = Some ''fff'' \<rparr>])
      [\<lparr> name = Some ''zed'', label = None, color = Some ''#fff'' \<rparr>]
      \<lparr> repo = ''acme/big'', source = None, token = ''t'' \<rparr>) =
     [\<lparr> endpoint = ''repos/acme/big/labels'', opts = NoOpts \<rparr>,
      \<lparr> endpoint = ''repos/acme/big/labels'',
        opts = Data \<lparr> name = Some ''zed'', label = None, color = Some ''fff'' \<rparr> \<rparr>] \<and>
   map e_err (events (GitHubLabeller
      (paged [\<lparr> name = Some ''bug'', label = None, color = Some ''d73a4a'' \<rparr>,
              \<lparr> name = Some ''feat'', label = None, color = Some ''0f0'' \<rparr>,
              \<lparr> name = Some ''zed'', label = None, color = Some ''fff'' \<rparr>])
      [\<lparr> name = Some ''zed'', label = None, color = Some ''#fff'' \<rparr>]
      \<lparr> repo = ''acme/big'', source = None, token = ''t'' \<rparr>)) =
     [Error (Remote ''Validation Failed'')]"
  by code_simp

subsection \<open>A source repository\<close>

text \<open>
  C4. When a source is given and its labels can be fetched, they are appended to the
  labels that were passed, as they are and after them; \<open>source\<close> is deleted and the
  function runs again on the merged list, its events being emitted again on the emitter
  of the outer call and its callback being the caller's. When the merged labels pass
  the checks and the target is one repository whose labels can be listed, every
  element of the merged list, in order and equal names included, is written by one
  request and announced by one event.
\<close>

theorem source_labels_appended:
  assumes "truthy (source options)"
    and "listing e \<lparr> endpoint = ''repos/'' @ to_str (source options) @ ''/labels'', opts = AllPages \<rparr>
           = Inr lbls"
  shows
    "requests (GitHubLabeller e labels options) =
       \<lparr> endpoint = ''repos/'' @ to_str (source options) @ ''/labels'', opts = AllPages \<rparr> #
       requests (GitHubLabeller e (labels @ lbls) (options \<lparr> source := None \<rparr>)) \<and>
     events (GitHubLabeller e labels options) =
       events (GitHubLabeller e (labels @ lbls) (options \<lparr> source := None \<rparr>)) \<and>
     outcome (GitHubLabeller e labels options) =
       outcome (GitHubLabeller e (labels @ lbls) (options \<lparr> source := None \<rparr>)) \<and>
     options_after (GitHubLabeller e labels options) = options \<lparr> source := None \<rparr> \<and>
     (labels @ lbls \<noteq> [] \<and> list_all valid (labels @ lbls) \<and>
      split CHR ''/'' (repo options) = [u, r] \<and> r \<noteq> [] \<and>
      listing e (labels_request u r) = Inr existing \<longrightarrow>
        map e_label (events (GitHubLabeller e labels options)) = map normal (labels @ lbls) \<and>
        length (events (GitHubLabeller e labels options)) = length labels + length lbls \<and>
        requests (GitHubLabeller e labels options) =
          \<lparr> endpoint = ''repos/'' @ to_str (source options) @ ''/labels'', opts = AllPages \<rparr> #
          labels_request u r #
          map (upsert_request u r (map name existing)) (map normal (labels @ lbls)))"
proof -
  let ?inner = "GitHubLabeller e (labels @ lbls) (options \<lparr> source := None \<rparr>)"
  have unfold: "requests (GitHubLabeller e labels options) =
       \<lparr> endpoint = ''repos/'' @ to_str (source options) @ ''/labels'', opts = AllPages \<rparr> #
       requests ?inner"
    "events (GitHubLabeller e labels options) = events ?inner"
    "outcome (GitHubLabeller e labels options) = outcome ?inner"
    "options_after (GitHubLabeller e labels options) = options_after ?inner"
    using assms by (simp_all add: GitHubLabeller.simps [of e labels options] Let_def)
  have opt: "options_after ?inner = options \<lparr> source := None \<rparr>"
    using no_source_frame [of "options \<lparr> source := None \<rparr>" e "labels @ lbls"] by simp
  have applied: "map e_label (events ?inner) = map normal (labels @ lbls) \<and>
      length (events ?inner) = length labels + length lbls \<and>
      requests ?inner = labels_request u r #
          map (upsert_request u r (map name existing)) (map normal (labels @ lbls))"
    if ne: "labels @ lbls \<noteq> []" and ok: "list_all valid (labels @ lbls)"
      and s: "split CHR ''/'' (repo options) = [u, r]" and r: "r \<noteq> []"
      and l: "listing e (labels_request u r) = Inr existing"
  proof -
    have "?inner =
        \<lparr> requests = requests (checkRepo e u r (Many (map normal (labels @ lbls)))),
          events = events (checkRepo e u r (Many (map normal (labels @ lbls)))),
          calls = calls (checkRepo e u r (Many (map normal (labels @ lbls)))),
          outcome = Called (called (checkRepo e u r (Many (map normal (labels @ lbls))))),
          labels_after = map normal (labels @ lbls),
          options_after = options \<lparr> source := None \<rparr>, emitter = True \<rparr>"
      using s r by (intro GitHubLabeller_explicit [OF _ ne ok]) simp_all
    with l show ?thesis
      by (simp add: checkRepo_Many added_def comp_def)
  qed
  from unfold opt applied show ?thesis by simp
qed


theorem source_labels_appended_witness:
  "map e_label (events (GitHubLabeller demo
      [\<lparr> name = Some ''bug'', label = None, color = Some ''f00'' \<rparr>]
      \<lparr> repo = ''acme/widgets'', source = Some ''acme/palette'', token = ''t'' \<rparr>)) =
     [\<lparr> name = Some ''bug'', label = None, color = Some ''f00'' \<rparr>,
      \<lparr> name = Some ''bug'', label = None, color = Some ''00f'' \<rparr>,
      \<lparr> name = Some ''feat'', label = None, color = Some ''0f0'' \<rparr>] \<and>
   length (events (GitHubLabeller demo
      [\<lparr> name = Some ''bug'', label = None, color = Some ''f00'' \<rparr>]
      \<lparr> repo = ''acme/widgets'', source = Some ''acme/palette'', token = ''t'' \<rparr>)) = 3 \<and>
   map opts (requests (GitHubLabeller demo
      [\<lparr> name = Some ''bug'', label = None, color = Some ''f00'' \<rparr>]
      \<lparr> repo = ''acme/widgets'', source = Some ''acme/palette'', token = ''t'' \<rparr>)) =
     [AllPages, NoOpts,
      Data \<lparr> name = Some ''bug'', label = None, color = Some ''f00'' \<rparr>,
      Data \<lparr> name = Some ''bug'', label = None, color = Some ''00f'' \<rparr>,
      Data \<lparr> name = Some ''feat'', label = None, color = Some ''0f0'' \<rparr>] \<and>
   options_after (GitHubLabeller demo
      [\<lparr> name = Some ''bug'', label = None, color = Some ''f00'' \<rparr>]
      \<lparr> repo = ''acme/widgets'', source = Some ''acme/palette'', token = ''t'' \<rparr>) =
     \<lparr> repo = ''acme/widgets'', source = None, token = ''t'' \<rparr>"
proof -
  let ?options = "\<lparr> repo = ''acme/widgets'', source = Some ''acme/palette'', token = ''t'' \<rparr>"
  let ?lbls = "[\<lparr> name = Some ''bug'', label = None, color = Some ''00f'' \<rparr>,
      \<lparr> name = Some ''feat'', label = None, color = Some ''0f0'' \<rparr>]"
  let ?existing = "[\<lparr> name = Some ''bug'', label = None, color = Some ''d73a4a'' \<rparr>,
      \<lparr> name = Some ''help wanted'', label = None, color = Some ''008672'' \<rparr>]"
  have src: "truthy (source ?options)" by simp
  have fetched: "listing demo
      \<lparr> endpoint = ''repos/'' @ to_str (source ?options) @ ''/labels'', opts = AllPages \<rparr> = Inr ?lbls"
    by (simp add: demo_def demo_listing_def)
  have rest: "[\<lparr> name = Some ''bug'', label = None, color = Some ''f00'' \<rparr>] @ ?lbls \<noteq> [] \<and>
      list_all valid ([\<lparr> name = Some ''bug'', label = None, color = Some ''f00'' \<rparr>] @ ?lbls) \<and>
      split CHR ''/'' (repo ?options) = [''acme'', ''widgets''] \<and> ''widgets'' \<noteq> [] \<and>
      listing demo (labels_request ''acme'' ''widgets'') = Inr ?existing"
    by (simp add: valid_def demo_def demo_listing_def labels_request_def collection_endpoint_def)
  let ?run = "GitHubLabeller demo
      [\<lparr> name = Some ''bug'', label = None, color = Some ''f00'' \<rparr>] ?options"
  note inst = source_labels_appended [OF src fetched,
      where labels = "[\<lparr> name = Some ''bug'', label = None, color = Some ''f00'' \<rparr>]"
        and u = "''acme''" and r = "''widgets''" and existing = ?existing]
  from inst have cleared: "options_after ?run = ?options \<lparr> source := None \<rparr>"
    by blast
  from inst rest have applied:
    "map e_label (events ?run) =
       map normal ([\<lparr> name = Some ''bug'', label = None, color = Some ''f00'' \<rparr>] @ ?lbls)"
    "length (events ?run) =
       length [\<lparr> name = Some ''bug'', label = None, color = Some ''f00'' \<rparr>] + length ?lbls"
    "requests ?run =
       \<lparr> endpoint = ''repos/'' @ to_str (source ?options) @ ''/labels'', opts = AllPages \<rparr> #
       labels_request ''acme'' ''widgets'' #
       map (upsert_request ''acme'' ''widgets'' (map name ?existing))
         (map normal ([\<lparr> name = Some ''bug'', label = None, color = Some ''f00'' \<rparr>] @ ?lbls))"
    by blast+
  show ?thesis
    unfolding applied cleared
    by (simp add: normal_def normalize_label_def labels_request_def upsert_request_def)
qed

subsection \<open>All repositories of an owner\<close>

text \<open>
  C2. Take a run on an owner whose repositories could be listed. The callback is called
  once, with the join of one report per repository, in the order of the listing. The
  report of a repository depends on that repository alone: when its labels cannot be
  listed it is the error, as only argument, and nothing is written there; when they
  can, it is the join of the results of the writes of all the labels, each of which was
  requested and announced by an event. A repository whose listing fails therefore
  takes nothing away from the others.
\<close>

theorem fan_out_keeps_siblings:
  assumes "\<not> truthy (source options)" and "labels \<noteq> []" and "list_all valid labels"
    and "split CHR ''/'' (repo options) = [v, []] \<or>
         length (split CHR ''/'' (repo options)) \<noteq> 2 \<and> v = repo options"
    and "listing e \<lparr> endpoint = ''users/'' @ v @ ''/repos'', opts = AllPages \<rparr> = Inr repos"
  shows
    "outcome (GitHubLabeller e labels options) =
       Called (join e (map (\<lambda>c.
         case listing e (labels_request v (to_str (name c))) of
           Inl err \<Rightarrow> [Error err]
         | Inr existing \<Rightarrow>
             join e (map (\<lambda>l. [Null, snd (writing e
                       (upsert_request v (to_str (name c)) (map name existing) l))])
                     (map normal labels))) repos)) \<and>
     requests (GitHubLabeller e labels options) =
       \<lparr> endpoint = ''users/'' @ v @ ''/repos'', opts = AllPages \<rparr> #
       concat (map (\<lambda>c.
         labels_request v (to_str (name c)) #
         (case listing e (labels_request v (to_str (name c))) of
            Inl err \<Rightarrow> []
          | Inr existing \<Rightarrow>
              map (upsert_request v (to_str (name c)) (map name existing)) (map normal labels)))
         repos) \<and>
     events (GitHubLabeller e labels options) =
       concat (map (\<lambda>c.
         case listing e (labels_request v (to_str (name c))) of
           Inl err \<Rightarrow> []
         | Inr existing \<Rightarrow>
             map (\<lambda>l. added v (to_str (name c)) l
                    (writing e (upsert_request v (to_str (name c)) (map name existing) l)))
                 (map normal labels)) repos)"
proof -
  have slot: "called (checkRepo e v rn (Many ls)) =
      (case listing e (labels_request v rn) of
         Inl err \<Rightarrow> [Error err]
       | Inr existing \<Rightarrow>
           join e (map (\<lambda>l. [Null, snd (writing e (upsert_request v rn (map name existing) l))]) ls))"
    for rn ls
    by (simp add: checkRepo_Many split: sum.splits)
  have reqs: "requests (checkRepo e v rn (Many ls)) =
      labels_request v rn #
      (case listing e (labels_request v rn) of
         Inl err \<Rightarrow> []
       | Inr existing \<Rightarrow> map (upsert_request v rn (map name existing)) ls)"
    for rn ls
    by (simp add: checkRepo_Many split: sum.splits)
  have evs: "events (checkRepo e v rn (Many ls)) =
      (case listing e (labels_request v rn) of
         Inl err \<Rightarrow> []
       | Inr existing \<Rightarrow>
           map (\<lambda>l. added v rn l (writing e (upsert_request v rn (map name existing) l))) ls)"
    for rn ls
    by (simp add: checkRepo_Many split: sum.splits)
  show ?thesis
    by (simp add: GitHubLabeller_owner_listed [OF assms] slot reqs evs)
qed


theorem fan_out_keeps_siblings_witness:
  "outcome (GitHubLabeller demo [\<lparr> name = Some ''bug'', label = None, color = Some ''#f00'' \<rparr>]
      \<lparr> repo = ''acme'', source = None, token = ''t'' \<rparr>) =
     Called [Array [Null, Error (Remote ''Not Found''), Null],
             Array [Array [Object \<lparr> name = Some ''bug'', label = None, color = Some ''f00'' \<rparr>],
                    Undefined,
                    Array [Object \<lparr> name = Some ''bug'', label = None, color = Some ''f00'' \<rparr>]]] \<and>
   requests (GitHubLabeller demo [\<lparr> name = Some ''bug'', label = None, color = Some ''#f00'' \<rparr>]
      \<lparr> repo = ''acme'', source = None, token = ''t'' \<rparr>) =
     [\<lparr> endpoint = ''users/acme/repos'', opts = AllPages \<rparr>,
      \<lparr> endpoint = ''repos/acme/a/labels'', opts = NoOpts \<rparr>,
      \<lparr> endpoint = ''repos/acme/a/labels/bug'',
        opts = Data \<lparr> name = Some ''bug'', label = None, color = Some ''f00'' \<rparr> \<rparr>,
      \<lparr> endpoint = ''repos/acme/b/labels'', opts = NoOpts \<rparr>,
      \<lparr> endpoint = ''repos/acme/c/labels'', opts = NoOpts \<rparr>,
      \<lparr> endpoint = ''repos/acme/c/labels'',
        opts = Data \<lparr> name = Some ''bug'', label = None, color = Some ''f00'' \<rparr> \<rparr>] \<and>
   map e_repo (events (GitHubLabeller demo
      [\<lparr> name = Some ''bug'', label = None, color = Some ''#f00'' \<rparr>]
      \<lparr> repo = ''acme'', source = None, token = ''t'' \<rparr>)) = [''a'', ''c'']"
proof -
  let ?options = "\<lparr> repo = ''acme'', source = None, token = ''t'' \<rparr>"
  let ?labels = "[\<lparr> name = Some ''bug'', label = None, color = Some ''#f00'' \<rparr>]"
  let ?repos = "[\<lparr> name = Some ''a'', label = None, color = None \<rparr>,
                 \<lparr> name = Some ''b'', label = None, color = None \<rparr>,
                 \<lparr> name = Some ''c'', label = None, color = None \<rparr>]"
  have ns: "\<not> truthy (source ?options)" and ne: "?labels \<noteq> []"
    and ok: "list_all valid ?labels"
    and own: "split CHR ''/'' (repo ?options) = [''acme'', []] \<or>
       length (split CHR ''/'' (repo ?options)) \<noteq> 2 \<and> ''acme'' = repo ?options"
    and listed: "listing demo \<lparr> endpoint = ''users/'' @ ''acme'' @ ''/repos'', opts = AllPages \<rparr>
       = Inr ?repos"
    by (simp_all add: valid_def demo_def demo_listing_def)
  note inst = fan_out_keeps_siblings [OF ns ne ok own listed]
  show ?thesis
    unfolding inst [THEN conjunct1] inst [THEN conjunct2, THEN conjunct1]
      inst [THEN conjunct2, THEN conjunct2]
    by code_simp
qed

end
